theory Spec2Isabelle
  imports Complex_Main "HOL-Library.Multiset"
begin

section \<open>Data model of \<^verbatim>\<open>vna.py\<close>\<close>

text \<open>
  Python floats are modelled as \<^typ>\<open>real\<close>: rounding, infinities and NaN are outside the
  model. Python integers are \<^typ>\<open>int\<close>. Every exception the source can raise is a value
  of \<open>error\<close>; a computation that may raise returns \<open>error + 'a\<close> with \<open>Inl\<close> the exception.
\<close>

datatype error =
  VisaIOError | RuntimeError | ValueError | TypeError | KeyError | IndexError
  | ZeroDivisionError

text \<open>Class \<^verbatim>\<open>Segment\<close>. The constructor sets the defaults to the initial geometry and
  \<^verbatim>\<open>enabled = True\<close>.\<close>

record Segment =
  seg_name :: string
  seg_f0 :: real
  seg_f0_default :: real
  seg_span :: real
  seg_span_default :: real
  seg_points :: int
  seg_ifbw :: real
  seg_power :: real
  seg_enabled :: bool

definition Segment_init :: "string \<Rightarrow> real \<Rightarrow> real \<Rightarrow> int \<Rightarrow> real \<Rightarrow> real \<Rightarrow> Segment" where
  "Segment_init n f0 sp points ifbw pw =
     \<lparr>seg_name = n, seg_f0 = f0, seg_f0_default = f0, seg_span = sp,
      seg_span_default = sp, seg_points = points, seg_ifbw = ifbw, seg_power = pw,
      seg_enabled = True\<rparr>"

text \<open>The configuration dictionary handed to \<^verbatim>\<open>VNAConfig.__init__\<close>. A field that is
  \<open>None\<close> is a key missing from the dictionary: reading it raises \<^verbatim>\<open>KeyError\<close>. The segment
  map is an association list in the dictionary's iteration order.\<close>

record segment_entry =
  e_f0 :: "real option"
  e_span :: "real option"
  e_points :: "int option"
  e_ifbw :: "real option"
  e_power :: "real option"

record config =
  c_segments :: "(string \<times> segment_entry) list option"
  c_track_frequency :: "bool option"
  c_track_span :: "bool option"
  c_use_markers :: "bool option"
  c_bandwidth_factor :: "real option"

text \<open>Class \<^verbatim>\<open>VNAConfig\<close>.\<close>

record VNAConfig =
  segments :: "Segment list"
  track_freq :: bool
  track_span :: bool
  use_markers :: bool
  bw_factor :: real
  bw_factor_override :: "real option"
  track_enabled :: bool

definition bind_err :: "error + 'a \<Rightarrow> ('a \<Rightarrow> error + 'b) \<Rightarrow> error + 'b" where
  "bind_err m f = (case m of Inl e \<Rightarrow> Inl e | Inr a \<Rightarrow> f a)"

definition getitem :: "'a option \<Rightarrow> error + 'a" where
  "getitem v = (case v of None \<Rightarrow> Inl KeyError | Some a \<Rightarrow> Inr a)"

definition make_segment :: "string \<times> segment_entry \<Rightarrow> error + Segment" where
  "make_segment ns =
     bind_err (getitem (e_f0 (snd ns))) (\<lambda>f0.
     bind_err (getitem (e_span (snd ns))) (\<lambda>sp.
     bind_err (getitem (e_points (snd ns))) (\<lambda>points.
     bind_err (getitem (e_ifbw (snd ns))) (\<lambda>ifbw.
     bind_err (getitem (e_power (snd ns))) (\<lambda>pw.
       Inr (Segment_init (fst ns) f0 sp points ifbw pw))))))"

fun make_segments :: "(string \<times> segment_entry) list \<Rightarrow> error + Segment list" where
  "make_segments [] = Inr []"
| "make_segments (ns # rest) =
     bind_err (make_segment ns) (\<lambda>s.
     bind_err (make_segments rest) (\<lambda>ss. Inr (s # ss)))"

text \<open>\<^verbatim>\<open>VNAConfig.__init__\<close>: \<^verbatim>\<open>self.segments.sort(key=lambda seg: seg.f0)\<close> is a stable
  ascending sort on the key, which is what \<^const>\<open>sort_key\<close> computes.\<close>

definition VNAConfig_init :: "config \<Rightarrow> error + VNAConfig" where
  "VNAConfig_init config =
     bind_err (getitem (c_segments config)) (\<lambda>items.
     bind_err (make_segments items) (\<lambda>segs.
     bind_err (getitem (c_track_frequency config)) (\<lambda>tf.
     bind_err (getitem (c_track_span config)) (\<lambda>ts.
     bind_err (getitem (c_use_markers config)) (\<lambda>um.
     bind_err (getitem (c_bandwidth_factor config)) (\<lambda>bf.
       Inr \<lparr>segments = sort_key seg_f0 segs, track_freq = tf, track_span = ts,
            use_markers = um, bw_factor = bf, bw_factor_override = None,
            track_enabled = True\<rparr>))))))"

definition get_bw_factor :: "VNAConfig \<Rightarrow> real" where
  "get_bw_factor c =
     (case bw_factor_override c of Some x \<Rightarrow> x | None \<Rightarrow> bw_factor c)"

text \<open>Class \<^verbatim>\<open>Sample\<close>: six parallel lists. A slot is \<open>None\<close> where the source appends
  \<^verbatim>\<open>None\<close>.\<close>

record Sample =
  s_bw :: "real option list"
  s_f0 :: "real option list"
  s_q :: "real option list"
  s_il :: "real option list"
  s_freq :: "real list option list"
  s_ampl :: "real list option list"

definition Sample_init :: Sample where
  "Sample_init = \<lparr>s_bw = [], s_f0 = [], s_q = [], s_il = [], s_freq = [], s_ampl = []\<rparr>"

section \<open>Tracking window test and resonance fit\<close>

text \<open>\<^verbatim>\<open>track_window\<close>. The operands are Python floats, so a zero divisor raises
  \<^verbatim>\<open>ZeroDivisionError\<close>; \<^verbatim>\<open>or\<close> evaluates its second operand only when the first is
  false. (With a numpy scalar operand the quotient is an infinity or NaN instead, which
  this real-valued model does not represent.)\<close>

definition track_window ::
  "real \<Rightarrow> real \<Rightarrow> real \<Rightarrow> real \<Rightarrow> real \<Rightarrow> real \<Rightarrow> real \<Rightarrow> error + bool \<times> bool" where
  "track_window center sp f0 bw center_err span_err factor =
     (let ferr = \<bar>center - f0\<bar> + bw / 2;
          retrackf = (ferr > sp * center_err * 0.5)
      in if sp = 0 then Inl ZeroDivisionError
         else if (bw * factor) / sp > 1 + span_err then Inr (retrackf, True)
         else if bw * factor = 0 then Inl ZeroDivisionError
         else Inr (retrackf, sp / (bw * factor) > 1 + span_err))"

text \<open>\<^verbatim>\<open>lorentz_fn\<close>: in Python \<^verbatim>\<open>**\<close> binds tighter than \<^verbatim>\<open>*\<close>, so the radicand is
  \<open>1 + 4 * ((x - f0) / bw)\<^sup>2\<close>.\<close>

definition lorentz_fn :: "real \<Rightarrow> real \<Rightarrow> real \<Rightarrow> real \<Rightarrow> real" where
  "lorentz_fn x f0 bw pmax = pmax / sqrt (1 + (4 * ((x - f0) / bw)\<^sup>2))"

text \<open>The lineshape as the specification writes it, \<open>pmax / sqrt (1 + (4 (x - f0) / bw)\<^sup>2)\<close>,
  for comparison with \<^const>\<open>lorentz_fn\<close>.\<close>

definition lineshape_spec :: "real \<Rightarrow> real \<Rightarrow> real \<Rightarrow> real \<Rightarrow> real" where
  "lineshape_spec x f0 bw pmax = pmax / sqrt (1 + (4 * (x - f0) / bw)\<^sup>2)"

text \<open>The two scipy routines the module calls are parameters. \<open>curve_fit f xdata ydata p0\<close>
  returns the fitted parameters or the exception it raises; \<open>linregress x y\<close> returns the
  slope or the exception it raises.\<close>

record scipy =
  curve_fit :: "(real \<Rightarrow> real \<Rightarrow> real \<Rightarrow> real \<Rightarrow> real) \<Rightarrow> real list \<Rightarrow> real list
                 \<Rightarrow> real \<times> real \<times> real \<Rightarrow> error + real \<times> real \<times> real"
  linregress :: "real list \<Rightarrow> real list \<Rightarrow> error + real"

text \<open>\<^verbatim>\<open>lorentz_fit\<close> with its default start \<open>(f0, bw, pmax) = (0.5, 0.5, 1.0)\<close>.
  \<^verbatim>\<open>np.max\<close> and \<^verbatim>\<open>np.min\<close> raise \<^verbatim>\<open>ValueError\<close> on an empty array. When the peak
  amplitude or the frequency span is zero, numpy's division yields NaN or infinities and
  \<^verbatim>\<open>curve_fit\<close>, which checks its inputs for finiteness, raises \<^verbatim>\<open>ValueError\<close>. The local
  \<^verbatim>\<open>weights = norma*norma\<close> is computed by the source but passed to nothing.\<close>

definition lorentz_fit ::
  "scipy \<Rightarrow> real list \<Rightarrow> real list \<Rightarrow> error + real \<times> real \<times> real \<times> real" where
  "lorentz_fit lib freq ampl =
     (if ampl = [] then Inl ValueError
      else let maxa = Max (set ampl);
               norma = map (\<lambda>a. a / maxa) ampl
      in if freq = [] then Inl ValueError
      else let minf = Min (set freq);
               maxf = Max (set freq);
               fspan = maxf - minf;
               normf = map (\<lambda>f. (f - minf) / fspan) freq
      in if maxa = 0 \<or> fspan = 0 then Inl ValueError
      else bind_err (curve_fit lib lorentz_fn normf norma (0.5, 0.5, 1.0))
             (\<lambda>(f0, bw, pmax).
                let f0' = (f0 * fspan) + minf;
                    bw' = \<bar>bw\<bar> * fspan;
                    pmax' = 20 * log 10 (pmax * maxa)
                in Inr (bw', f0', f0' / bw', pmax')))"

section \<open>The instrument link\<close>

text \<open>The module talks to the instrument through \<^verbatim>\<open>scpi.Wrapper\<close>, which is not part of
  the module. A command is recorded with its template and arguments, unformatted.
  \<open>AOnOff b\<close> stands for the value of \<^verbatim>\<open>onoff(b)\<close>.\<close>

datatype arg = AInt int | AReal real | AStr string | AOnOff bool

datatype val = VNone | VInt int | VReal real | VStr string

datatype cmd =
  Reset
  | Write string "arg list"
  | WriteValues string "val list" "arg list"
  | Query string "arg list"
  | QueryValues string "arg list"

text \<open>The instrument is any deterministic function of the commands sent so far, the
  current one last: whether a write (or reset) fails, and what a query answers, \<open>None\<close>
  being a transport failure, raised as \<^verbatim>\<open>VisaIOError\<close>.\<close>

record link =
  write_fails :: "cmd list \<Rightarrow> bool"
  query_reply :: "cmd list \<Rightarrow> string option"
  values_reply :: "cmd list \<Rightarrow> real list option"

text \<open>The attributes of a \<^verbatim>\<open>VNA\<close> object, with the commands its link has sent.
  \<^verbatim>\<open>last_sample\<close> is \<^verbatim>\<open>None\<close> or the list \<^verbatim>\<open>[bw, f0, q]\<close> of three lists.\<close>

record vna =
  cfg :: VNAConfig
  model :: string
  last_sample :: "real option list list option"
  res_log :: "cmd list"

type_synonym 'a io = "vna \<Rightarrow> (error + 'a) \<times> vna"

definition io_return :: "'a \<Rightarrow> 'a io" where
  "io_return x = (\<lambda>v. (Inr x, v))"

definition io_raise :: "error \<Rightarrow> 'a io" where
  "io_raise e = (\<lambda>v. (Inl e, v))"

definition io_bind :: "'a io \<Rightarrow> ('a \<Rightarrow> 'b io) \<Rightarrow> 'b io" where
  "io_bind m f = (\<lambda>v. case m v of (Inl e, v') \<Rightarrow> (Inl e, v') | (Inr a, v') \<Rightarrow> f a v')"

definition io_seq :: "unit io \<Rightarrow> 'b io \<Rightarrow> 'b io" where
  "io_seq m n = io_bind m (\<lambda>_. n)"

definition send_write :: "link \<Rightarrow> cmd \<Rightarrow> unit io" where
  "send_write l c = (\<lambda>v.
     let lg = res_log v @ [c]
     in (if write_fails l lg then Inl VisaIOError else Inr (), v\<lparr>res_log := lg\<rparr>))"

definition res_reset :: "link \<Rightarrow> unit io" where
  "res_reset l = send_write l Reset"

definition res_write :: "link \<Rightarrow> string \<Rightarrow> arg list \<Rightarrow> unit io" where
  "res_write l t args = send_write l (Write t args)"

definition res_write_ascii_values :: "link \<Rightarrow> string \<Rightarrow> val list \<Rightarrow> arg list \<Rightarrow> unit io" where
  "res_write_ascii_values l t data args = send_write l (WriteValues t data args)"

definition res_query :: "link \<Rightarrow> string \<Rightarrow> arg list \<Rightarrow> string io" where
  "res_query l t args = (\<lambda>v.
     let lg = res_log v @ [Query t args]
     in (case query_reply l lg of None \<Rightarrow> Inl VisaIOError | Some r \<Rightarrow> Inr r,
         v\<lparr>res_log := lg\<rparr>))"

definition res_query_ascii_values :: "link \<Rightarrow> string \<Rightarrow> arg list \<Rightarrow> real list io" where
  "res_query_ascii_values l t args = (\<lambda>v.
     let lg = res_log v @ [QueryValues t args]
     in (case values_reply l lg of None \<Rightarrow> Inl VisaIOError | Some r \<Rightarrow> Inr r,
         v\<lparr>res_log := lg\<rparr>))"

section \<open>Python strings and slices\<close>

fun split_on :: "char \<Rightarrow> string \<Rightarrow> string list" where
  "split_on c [] = [[]]"
| "split_on c (x # xs) =
     (if x = c then [] # split_on c xs
      else (case split_on c xs of w # ws \<Rightarrow> (x # w) # ws | [] \<Rightarrow> [[x]]))"

text \<open>The ASCII characters \<^verbatim>\<open>str.strip()\<close> removes.\<close>

definition is_space :: "char \<Rightarrow> bool" where
  "is_space c = (c \<in> {CHR 0x20, CHR 0x09, CHR 0x0A, CHR 0x0B, CHR 0x0C, CHR 0x0D,
                       CHR 0x1C, CHR 0x1D, CHR 0x1E, CHR 0x1F})"

definition strip :: "string \<Rightarrow> string" where
  "strip s = rev (dropWhile is_space (rev (dropWhile is_space s)))"

text \<open>\<^verbatim>\<open>devname.split(",")[1].strip()\<close>; index 1 of a one-element list raises
  \<^verbatim>\<open>IndexError\<close>.\<close>

definition model_of :: "string \<Rightarrow> error + string" where
  "model_of devname =
     (case split_on CHR '','' devname of
        _ # m # _ \<Rightarrow> Inr (strip m)
      | _ \<Rightarrow> Inl IndexError)"

text \<open>A slice bound on a sequence of length \<open>n\<close>: a negative bound counts from the end,
  and the result is clamped to \<open>0..n\<close>.\<close>

definition slice_bound :: "int \<Rightarrow> int \<Rightarrow> int" where
  "slice_bound n i = (if i < 0 then max 0 (i + n) else min i n)"

definition py_slice :: "'a list \<Rightarrow> int \<Rightarrow> int \<Rightarrow> 'a list" where
  "py_slice xs i j =
     (let n = int (length xs); a = slice_bound n i; b = slice_bound n j
      in take (nat (b - a)) (drop (nat a) xs))"

section \<open>Sweep programming\<close>

text \<open>The loops of \<^verbatim>\<open>set_segments\<close>: count the enabled segments and append each one's
  tuple to the payload.\<close>

fun collect_segments ::
  "(Segment \<Rightarrow> val list) \<Rightarrow> Segment list \<Rightarrow> int \<Rightarrow> val list \<Rightarrow> int \<times> val list" where
  "collect_segments tup [] enacount data = (enacount, data)"
| "collect_segments tup (s # ss) enacount data =
     (if seg_enabled s then collect_segments tup ss (enacount + 1) (data @ tup s)
      else collect_segments tup ss enacount data)"

definition tuple_N5232A :: "Segment \<Rightarrow> val list" where
  "tuple_N5232A s =
     [VInt 1, VInt (seg_points s), VReal (seg_f0 s), VReal (seg_span s),
      VReal (seg_ifbw s), VInt 0, VReal (seg_power s)]"

definition tuple_E5071 :: "Segment \<Rightarrow> val list" where
  "tuple_E5071 s =
     [VReal (seg_f0 s), VReal (seg_span s), VInt (seg_points s), VReal (seg_ifbw s),
      VReal (seg_power s)]"

definition set_segments :: "link \<Rightarrow> Segment list \<Rightarrow> int \<Rightarrow> unit io" where
  "set_segments l segs channel = (\<lambda>v.
     (if model v = ''N5232A'' then
        (case collect_segments tuple_N5232A segs 0 [VStr ''SSTOP'', VNone] of
           (enacount, data) \<Rightarrow>
             io_seq (res_write l '':SENS{}:SEGM:BWID:CONT {}'' [AInt channel, AOnOff True])
            (io_seq (res_write l '':SENS{}:SEGM:POW:CONT {}'' [AInt channel, AOnOff True])
            (res_write_ascii_values l '':SENS{}:SEGM:LIST'' (data[1 := VInt enacount])
               [AInt channel])))
      else
        (case collect_segments tuple_E5071 segs 0
                [VInt 5, VInt 1, VInt 1, VInt 1, VInt 0, VInt 0, VNone] of
           (enacount, data) \<Rightarrow>
             res_write_ascii_values l '':SENS{}:SEGM:DATA'' (data[6 := VInt enacount])
               [AInt channel])) v)"

definition get_marker_data :: "link \<Rightarrow> int \<Rightarrow> int \<Rightarrow> real list io" where
  "get_marker_data l marker channel =
     res_query_ascii_values l '':CALC{}:MARK{}:BWID:DATA?'' [AInt channel, AInt marker]"

definition get_sweep_data :: "link \<Rightarrow> int \<Rightarrow> real list io" where
  "get_sweep_data l channel = (\<lambda>v.
     (if model v = ''N5232A''
      then res_query_ascii_values l '':CALC{}:DATA? SDAT'' [AInt channel]
      else res_query_ascii_values l '':CALC{}:DATA:SDAT?'' [AInt channel]) v)"

definition get_freq_data :: "link \<Rightarrow> int \<Rightarrow> real list io" where
  "get_freq_data l channel = (\<lambda>v.
     (if model v = ''N5232A''
      then res_query_ascii_values l '':CALC{}:X?'' [AInt channel]
      else res_query_ascii_values l '':SENS{}:FREQ:DATA?'' [AInt channel]) v)"

section \<open>Setup\<close>

text \<open>\<^verbatim>\<open>VNA.setup\<close>. The attributes \<^verbatim>\<open>cfg\<close>, \<^verbatim>\<open>model\<close> and \<^verbatim>\<open>last_sample\<close> are created
  here and not read before they are assigned. \<^verbatim>\<open>time.sleep\<close> has no effect on the state.\<close>

definition VNA_setup :: "link \<Rightarrow> config \<Rightarrow> unit io" where
  "VNA_setup l config =
     (case VNAConfig_init config of
        Inl e \<Rightarrow> io_raise e
      | Inr c \<Rightarrow>
          io_seq (\<lambda>v. (Inr (), v\<lparr>cfg := c\<rparr>))
         (io_seq (res_reset l)
         (io_bind (res_query l ''*IDN?'' []) (\<lambda>devname.
          case model_of devname of
            Inl e \<Rightarrow> io_raise e
          | Inr m \<Rightarrow>
              io_seq (\<lambda>v. (Inr (), v\<lparr>model := m\<rparr>))
             (io_seq (\<lambda>v. (Inr (), if model v = ''N5232A''
                                    then v\<lparr>cfg := (cfg v)\<lparr>use_markers := False\<rparr>\<rparr> else v))
             (io_seq (res_write l '':CALC1:PAR1:DEF {}'' [AStr ''S21''])
             (io_seq (res_write l '':INIT1:CONT {}'' [AOnOff True])
             (io_seq (\<lambda>v. (if \<not> use_markers (cfg v) then
                               (if model v = ''N5232A''
                                then res_write l '':TRIG:SOUR MAN'' []
                                else res_write l '':TRIG:SOUR BUS'' [])
                             else io_return ()) v)
             (io_seq (res_write l '':SENS1:SWE:TYPE {}'' [AStr ''SEGM''])
             (io_seq (res_write l '':SENS1:SWE:DELAY {}'' [AReal 0.001])
             (io_seq (res_write l '':SENS1:SWE:GEN {}'' [AStr ''STEP''])
             (io_seq (\<lambda>v. set_segments l (segments (cfg v)) 1 v)
             (io_seq (res_write l '':DISP:WIND1:TRAC1:Y:AUTO'' [])
             (io_seq (\<lambda>v. (if use_markers (cfg v) then
                               io_seq (res_write l '':CALC1:MARK:BWID {}'' [AOnOff True])
                              (io_seq (res_write l '':CALC1:MARK:FUNC:MULT:TYPE {}''
                                         [AStr ''PEAK''])
                              (io_seq (res_write l '':CALC1:MARK:FUNC:EXEC'' [])
                                      (res_write l '':CALC1:MARK:FUNC:MULT:TRAC {}''
                                         [AOnOff True])))
                             else io_return ()) v)
                     (\<lambda>v. (Inr (), v\<lparr>last_sample := None\<rparr>))))))))))))))))"

section \<open>One sampling cycle\<close>

text \<open>The trigger and wait that open a raw-sweep cycle.\<close>

definition trigger :: "link \<Rightarrow> unit io" where
  "trigger l = (\<lambda>v.
     io_seq (if model v = ''N5232A'' then res_write l '':INIT:IMM'' []
             else res_write l '':TRIG:SING'' [])
       (io_bind (res_query l ''*OPC?'' []) (\<lambda>_. io_return ())) v)"

text \<open>Marker mode: the loop \<^verbatim>\<open>for i in range(len(self.cfg.segments))\<close>. Unpacking a reply
  that does not hold exactly four values raises \<^verbatim>\<open>ValueError\<close>.\<close>

fun read_markers :: "link \<Rightarrow> nat list \<Rightarrow> Sample \<Rightarrow> Sample io" where
  "read_markers l [] data = io_return data"
| "read_markers l (i # rest) data =
     io_bind (get_marker_data l (int i + 1) 1) (\<lambda>vals.
       case vals of
         [bw, f0, q, il] \<Rightarrow>
           read_markers l rest
             (data\<lparr>s_bw := s_bw data @ [Some bw], s_f0 := s_f0 data @ [Some f0],
                   s_q := s_q data @ [Some q], s_il := s_il data @ [Some il]\<rparr>)
       | _ \<Rightarrow> io_raise ValueError)"

text \<open>The \<^verbatim>\<open>try\<close> block of marker mode with its \<^verbatim>\<open>except VisaIOError\<close>, and the staleness
  test against \<^verbatim>\<open>last_sample\<close>.\<close>

definition acquire_markers :: "link \<Rightarrow> Sample option io" where
  "acquire_markers l = (\<lambda>v.
     case read_markers l [0..<length (segments (cfg v))] Sample_init v of
       (Inl e, v') \<Rightarrow> if e = VisaIOError then (Inr None, v') else (Inl e, v')
     | (Inr data, v') \<Rightarrow>
         (let arr = [s_bw data, s_f0 data, s_q data]
          in if last_sample v' = Some arr then (Inr None, v')
             else (Inr (Some data), v'\<lparr>last_sample := Some arr\<rparr>)))"

text \<open>\<^verbatim>\<open>cplx.reshape((-1,2)).T\<close> followed by the magnitude of each pair; an odd number of
  values cannot be reshaped and raises \<^verbatim>\<open>ValueError\<close>.\<close>

fun magnitudes :: "real list \<Rightarrow> error + real list" where
  "magnitudes [] = Inr []"
| "magnitudes [x] = Inl ValueError"
| "magnitudes (re # im # rest) =
     bind_err (magnitudes rest) (\<lambda>ms. Inr (sqrt (re\<^sup>2 + im\<^sup>2) # ms))"

text \<open>The body of the raw-sweep loop for an enabled segment: the fit inside \<^verbatim>\<open>try\<close>, and
  the handler of \<^verbatim>\<open>(RuntimeError, ValueError)\<close>, in which \<open>track\<close> is
  \<^verbatim>\<open>self.cfg.track_freq and self.cfg.track_enabled\<close>. An exception of \<^verbatim>\<open>linregress\<close> is
  raised inside the handler and leaves the cycle.\<close>

definition fit_segment ::
  "scipy \<Rightarrow> bool \<Rightarrow> Segment \<Rightarrow> real list \<Rightarrow> real list
     \<Rightarrow> error + Segment \<times> (real \<times> real \<times> real \<times> real) option" where
  "fit_segment lib track seg f a =
     (case lorentz_fit lib f a of
        Inr r \<Rightarrow> Inr (seg, Some r)
      | Inl e \<Rightarrow>
          if e = RuntimeError \<or> e = ValueError then
            (if track then
               (case linregress lib f a of
                  Inl e' \<Rightarrow> Inl e'
                | Inr slope \<Rightarrow>
                    Inr (if slope > 0 then seg\<lparr>seg_f0 := seg_f0 seg + seg_span seg\<rparr>
                         else seg\<lparr>seg_f0 := seg_f0 seg - seg_span seg\<rparr>, None))
             else Inr (seg, None))
          else Inl e)"

text \<open>The loop \<^verbatim>\<open>for seg in self.cfg.segments\<close> of raw-sweep mode, with its locals
  \<^verbatim>\<open>start\<close>, \<^verbatim>\<open>lost_track\<close> and \<^verbatim>\<open>data\<close>. The second component is the segment list as
  the loop leaves it, also when an exception ends the loop.\<close>

fun fit_loop ::
  "scipy \<Rightarrow> bool \<Rightarrow> real list \<Rightarrow> real list \<Rightarrow> Segment list \<Rightarrow> int \<Rightarrow> bool \<Rightarrow> Sample
     \<Rightarrow> (error + bool \<times> Sample) \<times> Segment list" where
  "fit_loop lib track freq ampl [] start lost data = (Inr (lost, data), [])"
| "fit_loop lib track freq ampl (seg # segs) start lost data =
     (if seg_enabled seg then
        (case fit_segment lib track seg (py_slice freq start (seg_points seg + start))
                (py_slice ampl start (seg_points seg + start)) of
           Inl e \<Rightarrow> (Inl e, seg # segs)
         | Inr (seg', Some (bw, f0, q, il)) \<Rightarrow>
             apsnd (Cons seg')
               (fit_loop lib track freq ampl segs (start + seg_points seg) lost
                  (data\<lparr>s_bw := s_bw data @ [Some bw], s_f0 := s_f0 data @ [Some f0],
                        s_q := s_q data @ [Some q], s_il := s_il data @ [Some il],
                        s_freq := s_freq data
                          @ [Some (py_slice freq start (seg_points seg + start))],
                        s_ampl := s_ampl data
                          @ [Some (py_slice ampl start (seg_points seg + start))]\<rparr>))
         | Inr (seg', None) \<Rightarrow>
             apsnd (Cons seg')
               (fit_loop lib track freq ampl segs (start + seg_points seg) True data))
      else
        apsnd (Cons seg)
          (fit_loop lib track freq ampl segs start lost
             (data\<lparr>s_bw := s_bw data @ [None], s_f0 := s_f0 data @ [None],
                   s_q := s_q data @ [None], s_il := s_il data @ [None],
                   s_freq := s_freq data @ [None], s_ampl := s_ampl data @ [None]\<rparr>)))"

text \<open>Raw-sweep mode after the two reads: the loop over the segments and the
  \<^verbatim>\<open>if lost_track\<close> exit.\<close>

definition fit_sweep :: "link \<Rightarrow> scipy \<Rightarrow> real list \<Rightarrow> real list \<Rightarrow> Sample option io" where
  "fit_sweep l lib freq ampl = (\<lambda>v.
     let track = (track_freq (cfg v) \<and> track_enabled (cfg v))
     in case fit_loop lib track freq ampl (segments (cfg v)) 0 False Sample_init of
          (r, segs') \<Rightarrow>
            (let v1 = v\<lparr>cfg := (cfg v)\<lparr>segments := segs'\<rparr>\<rparr>
             in case r of
                  Inl e \<Rightarrow> (Inl e, v1)
                | Inr (lost, data) \<Rightarrow>
                    if lost then
                      (if track
                       then io_seq (set_segments l segs' 1) (io_return None) v1
                       else (Inr None, v1))
                    else (Inr (Some data), v1)))"

text \<open>Raw-sweep mode: the sweep read, the amplitudes, the frequency read, then the
  loop.\<close>

definition acquire_sweep :: "link \<Rightarrow> scipy \<Rightarrow> Sample option io" where
  "acquire_sweep l lib =
     io_bind (get_sweep_data l 1) (\<lambda>raw.
       case magnitudes raw of
         Inl e \<Rightarrow> io_raise e
       | Inr ampl \<Rightarrow>
           io_bind (get_freq_data l 1) (\<lambda>freq. fit_sweep l lib freq ampl))"

text \<open>The body of the tracking loop for one segment and its fitted \<^verbatim>\<open>f0\<close> and \<^verbatim>\<open>bw\<close>:
  the new segment and whether it was retracked. Arithmetic on \<^verbatim>\<open>None\<close> raises
  \<^verbatim>\<open>TypeError\<close>.\<close>

definition retrack_segment ::
  "VNAConfig \<Rightarrow> Segment \<Rightarrow> real option \<Rightarrow> real option \<Rightarrow> error + Segment \<times> bool" where
  "retrack_segment c seg f0 bw =
     (case (f0, bw) of
        (Some f0', Some bw') \<Rightarrow>
          (case track_window (seg_f0 seg) (seg_span seg) f0' bw' 0.8 0.3 (get_bw_factor c) of
             Inl e \<Rightarrow> Inl e
           | Inr (trackf, tracks) \<Rightarrow>
               if (trackf \<and> track_freq c) \<or> (tracks \<and> track_span c) then
                 (let seg1 = (if track_freq c then seg\<lparr>seg_f0 := f0'\<rparr> else seg);
                      seg2 = (if track_span c
                              then seg1\<lparr>seg_span := bw' * get_bw_factor c\<rparr> else seg1)
                  in Inr (seg2, True))
               else Inr (seg, False))
      | _ \<Rightarrow> Inl TypeError)"

text \<open>The loop \<^verbatim>\<open>for seg, f0, bw in zip(self.cfg.segments, data.f0, data.bw)\<close> with its
  flag \<^verbatim>\<open>retracked\<close>; \<^verbatim>\<open>zip\<close> stops at the shortest list.\<close>

fun track_loop ::
  "VNAConfig \<Rightarrow> bool \<Rightarrow> Segment list \<Rightarrow> real option list \<Rightarrow> real option list
     \<Rightarrow> (error + bool) \<times> Segment list" where
  "track_loop c retracked (seg # segs) (f0 # f0s) (bw # bws) =
     (if \<not> seg_enabled seg then apsnd (Cons seg) (track_loop c retracked segs f0s bws)
      else (case retrack_segment c seg f0 bw of
              Inl e \<Rightarrow> (Inl e, seg # segs)
            | Inr (seg', changed) \<Rightarrow>
                apsnd (Cons seg') (track_loop c (retracked \<or> changed) segs f0s bws)))"
| "track_loop c retracked segs f0s bws = (Inr retracked, segs)"

text \<open>The forced trigger of marker mode after the sweep was reprogrammed.\<close>

definition force_trigger :: "link \<Rightarrow> unit io" where
  "force_trigger l = (\<lambda>v.
     io_seq (if model v = ''N5232A''
             then io_seq (res_write l '':TRIG:SOUR MAN'' []) (res_write l '':INIT:IMM'' [])
             else io_seq (res_write l '':TRIG:SOUR BUS'' []) (res_write l '':TRIG:SING'' []))
    (io_bind (res_query l ''*OPC?'' []) (\<lambda>_.
             res_write l '':TRIG:SOUR INT'' [])) v)"

text \<open>The tracking part of \<^verbatim>\<open>sample\<close>.\<close>

definition track :: "link \<Rightarrow> Sample \<Rightarrow> unit io" where
  "track l data = (\<lambda>v.
     if (track_freq (cfg v) \<or> track_span (cfg v)) \<and> track_enabled (cfg v) then
       (case track_loop (cfg v) False (segments (cfg v)) (s_f0 data) (s_bw data) of
          (r, segs') \<Rightarrow>
            (let v1 = v\<lparr>cfg := (cfg v)\<lparr>segments := segs'\<rparr>\<rparr>
             in case r of
                  Inl e \<Rightarrow> (Inl e, v1)
                | Inr retracked \<Rightarrow>
                    if retracked then
                      io_seq (set_segments l segs' 1)
                        (if use_markers (cfg v1) then force_trigger l else io_return ()) v1
                    else (Inr (), v1)))
     else (Inr (), v))"

text \<open>\<^verbatim>\<open>VNA.sample\<close>; the argument \<^verbatim>\<open>elapsed\<close> is not used by the source. \<open>Inr None\<close> is
  the return value \<^verbatim>\<open>None\<close>, \<open>Inr (Some data)\<close> a returned \<^verbatim>\<open>Sample\<close>, \<open>Inl e\<close> an
  exception that leaves the method.\<close>

definition sample :: "link \<Rightarrow> scipy \<Rightarrow> Sample option io" where
  "sample l lib =
     io_seq (\<lambda>v. (if \<not> use_markers (cfg v) then trigger l else io_return ()) v)
    (io_bind (\<lambda>v. (if use_markers (cfg v) then acquire_markers l
                     else acquire_sweep l lib) v) (\<lambda>r.
       case r of
         None \<Rightarrow> io_return None
       | Some data \<Rightarrow> io_seq (track l data) (io_return (Some data))))"

section \<open>Deferred mutation requests\<close>

text \<open>The bodies of the \<^verbatim>\<open>@runlater\<close> methods, as they run when applied. A list index
  counts from the end when negative and raises \<^verbatim>\<open>IndexError\<close> out of range.\<close>

definition set_segment_enabled :: "link \<Rightarrow> int \<Rightarrow> bool \<Rightarrow> unit io" where
  "set_segment_enabled l segment enabled = (\<lambda>v.
     let segs = segments (cfg v);
         n = int (length segs);
         j = (if segment < 0 then n + segment else segment)
     in if 0 \<le> j \<and> j < n then
          (let segs' = segs[nat j := (segs ! nat j)\<lparr>seg_enabled := enabled\<rparr>]
           in set_segments l segs' 1 (v\<lparr>cfg := (cfg v)\<lparr>segments := segs'\<rparr>\<rparr>))
        else (Inl IndexError, v))"

definition set_bw_factor_override :: "real option \<Rightarrow> unit io" where
  "set_bw_factor_override factor = (\<lambda>v.
     (Inr (), v\<lparr>cfg := (cfg v)\<lparr>bw_factor_override := factor\<rparr>\<rparr>))"

definition set_tracking_override :: "bool \<Rightarrow> unit io" where
  "set_tracking_override enabled = (\<lambda>v.
     (Inr (), v\<lparr>cfg := (cfg v)\<lparr>track_enabled := enabled\<rparr>\<rparr>))"

definition reset_tracking :: "link \<Rightarrow> unit io" where
  "reset_tracking l = (\<lambda>v.
     let segs' = map (\<lambda>s. s\<lparr>seg_f0 := seg_f0_default s, seg_span := seg_span_default s\<rparr>)
                   (segments (cfg v))
     in set_segments l segs' 1 (v\<lparr>cfg := (cfg v)\<lparr>segments := segs'\<rparr>\<rparr>))"

section \<open>Auxiliary notions for the proofs\<close>

text \<open>Relations between the state before and after a computation: only the command log
  grew; the model and every configuration field but the segment list are unchanged.\<close>

definition log_only :: "vna \<Rightarrow> vna \<Rightarrow> bool" where
  "log_only v v' = (\<exists>lg. v' = v\<lparr>res_log := lg\<rparr>)"

definition same_flags :: "vna \<Rightarrow> vna \<Rightarrow> bool" where
  "same_flags v v' =
     (model v' = model v \<and> track_freq (cfg v') = track_freq (cfg v)
      \<and> track_span (cfg v') = track_span (cfg v)
      \<and> use_markers (cfg v') = use_markers (cfg v)
      \<and> bw_factor (cfg v') = bw_factor (cfg v)
      \<and> bw_factor_override (cfg v') = bw_factor_override (cfg v)
      \<and> track_enabled (cfg v') = track_enabled (cfg v))"

definition io_frame :: "(vna \<Rightarrow> vna \<Rightarrow> bool) \<Rightarrow> 'a io \<Rightarrow> bool" where
  "io_frame R m = (\<forall>v. R v (snd (m v)))"

text \<open>A link that never fails and answers every query with the same identification
  string and the same values, an object before setup, and a configuration whose segment
  map is unsorted and holds two segments at the same centre frequency: concrete inputs
  for the examples below.\<close>

definition example_vna :: vna where
  "example_vna =
     \<lparr>cfg = \<lparr>segments = [], track_freq = False, track_span = False, use_markers = False,
             bw_factor = 1, bw_factor_override = None, track_enabled = False\<rparr>,
      model = [], last_sample = None, res_log = []\<rparr>"

definition example_link :: "string \<Rightarrow> real list \<Rightarrow> link" where
  "example_link idn vals =
     \<lparr>write_fails = (\<lambda>_. False), query_reply = (\<lambda>_. Some idn),
      values_reply = (\<lambda>_. Some vals)\<rparr>"

definition example_entry :: "real \<Rightarrow> segment_entry" where
  "example_entry f =
     \<lparr>e_f0 = Some f, e_span = Some 10, e_points = Some 2, e_ifbw = Some 1000,
      e_power = Some 0\<rparr>"

definition example_config :: "bool \<Rightarrow> config" where
  "example_config um =
     \<lparr>c_segments = Some [(''hi'', example_entry 200), (''lo'', example_entry 100),
                          (''lo2'', example_entry 100)],
      c_track_frequency = Some True, c_track_span = Some False, c_use_markers = Some um,
      c_bandwidth_factor = Some 8\<rparr>"

text \<open>Stand-ins for scipy that return the same fit result and the same slope on every
  input.\<close>

definition example_scipy :: "error + real \<times> real \<times> real \<Rightarrow> error + real \<Rightarrow> scipy" where
  "example_scipy fit slope =
     \<lparr>curve_fit = (\<lambda>f xs ys p. fit), linregress = (\<lambda>x y. slope)\<rparr>"

text \<open>The states an object can reach from \<open>v\<close>: by sampling cycles and by the deferred
  mutation requests, in any order.\<close>

inductive reach :: "link \<Rightarrow> scipy \<Rightarrow> vna \<Rightarrow> vna \<Rightarrow> bool" for l :: link and lib :: scipy where
  reach_refl: "reach l lib v v"
| reach_sample: "reach l lib v v1 \<Longrightarrow> reach l lib v (snd (sample l lib v1))"
| reach_enable: "reach l lib v v1 \<Longrightarrow> reach l lib v (snd (set_segment_enabled l i b v1))"
| reach_override: "reach l lib v v1 \<Longrightarrow> reach l lib v (snd (set_bw_factor_override f v1))"
| reach_tracking: "reach l lib v v1 \<Longrightarrow> reach l lib v (snd (set_tracking_override b v1))"
| reach_reset: "reach l lib v v1 \<Longrightarrow> reach l lib v (snd (reset_tracking l v1))"

definition example_idn :: "string \<Rightarrow> string" where
  "example_idn m = ''Agilent Technologies, '' @ m @ '' ,MY1,A.1''"




definition retracked :: "VNAConfig \<Rightarrow> Segment \<Rightarrow> real \<Rightarrow> real \<Rightarrow> Segment" where
  "retracked c seg f0 bw =
     seg\<lparr>seg_f0 := (if track_freq c then f0 else seg_f0 seg),
         seg_span := (if track_span c then bw * get_bw_factor c else seg_span seg)\<rparr>"



text \<open>A configured object with a given model, acquisition mode, tracking gates and
  segments.\<close>

definition example_state :: "string \<Rightarrow> bool \<Rightarrow> bool \<Rightarrow> bool \<Rightarrow> Segment list \<Rightarrow> vna" where
  "example_state m um tf ts segs =
     \<lparr>cfg = \<lparr>segments = segs, track_freq = tf, track_span = ts, use_markers = um,
             bw_factor = 8, bw_factor_override = None, track_enabled = True\<rparr>,
      model = m, last_sample = None, res_log = []\<rparr>"

text \<open>Transport failures. \<open>link_fault l lg\<close>: the link fails on the last command of the
  history \<open>lg\<close>. \<open>faulted l v v'\<close>: some command sent between the states \<open>v\<close> and \<open>v'\<close> met a
  failure of the link. \<open>raises_through l m\<close>: the computation \<open>m\<close> only appends to the
  command log, and whenever a command it sent met a failure it ends with
  \<^verbatim>\<open>VisaIOError\<close>.\<close>

definition link_fault :: "link \<Rightarrow> cmd list \<Rightarrow> bool" where
  "link_fault l lg =
     (lg \<noteq> [] \<and>
      (case last lg of
         Query t a \<Rightarrow> query_reply l lg = None
       | QueryValues t a \<Rightarrow> values_reply l lg = None
       | _ \<Rightarrow> write_fails l lg))"

definition faulted :: "link \<Rightarrow> vna \<Rightarrow> vna \<Rightarrow> bool" where
  "faulted l v v' =
     (\<exists>k. length (res_log v) < k \<and> k \<le> length (res_log v')
          \<and> link_fault l (take k (res_log v')))"

definition raises_through :: "link \<Rightarrow> 'a io \<Rightarrow> bool" where
  "raises_through l m =
     (\<forall>v r v'. m v = (r, v') \<longrightarrow>
        (\<exists>ext. res_log v' = res_log v @ ext) \<and> (faulted l v v' \<longrightarrow> r = Inl VisaIOError))"

text \<open>A link that fails on the \<open>n\<close>-th command it is sent and on no other.\<close>

definition example_faulty_link :: "string \<Rightarrow> real list \<Rightarrow> nat \<Rightarrow> link" where
  "example_faulty_link idn vals n =
     \<lparr>write_fails = (\<lambda>lg. length lg = n),
      query_reply = (\<lambda>lg. if length lg = n then None else Some idn),
      values_reply = (\<lambda>lg. if length lg = n then None else Some vals)\<rparr>"






section \<open>Properties of the resonance fit\<close>

lemma bind_err_Inr_iff: "bind_err m f = Inr b \<longleftrightarrow> (\<exists>a. m = Inr a \<and> f a = Inr b)"
  by (cases m) (simp_all add: bind_err_def)

text \<open>C10. Whenever \<^const>\<open>lorentz_fit\<close> returns, the bandwidth it returns is not negative,
  whatever the sign of the bandwidth parameter the solver converged to: the absolute
  value is taken before the parameter is scaled by the frequency span, which is itself
  not negative.\<close>

theorem lorentz_fit_bandwidth_nonneg:
  "lorentz_fit lib freq ampl = Inr (bw, f0, q, il) \<Longrightarrow> 0 \<le> bw"
  unfolding lorentz_fit_def
  by (auto simp: bind_err_Inr_iff Let_def split: if_splits prod.splits)

text \<open>A solver that converges to the bandwidth parameter \<open>-1/4\<close> on a 10 Hz window.\<close>

theorem lorentz_fit_bandwidth_nonneg_witness:
  "lorentz_fit \<lparr>curve_fit = (\<lambda>f xs ys p. Inr (1 / 2, - (1 / 4), 1)),
                 linregress = (\<lambda>x y. Inr 0)\<rparr> [0, 10] [1, 2]
     = Inr (5 / 2, 5, 2, 20 * log 10 2) \<and> (0::real) \<le> 5 / 2"
proof -
  have e: "lorentz_fit \<lparr>curve_fit = (\<lambda>f xs ys p. Inr (1 / 2, - (1 / 4), 1)),
                 linregress = (\<lambda>x y. Inr 0)\<rparr> [0, 10] [1, 2]
     = Inr (5 / 2, 5, 2, 20 * log 10 2)"
    by (simp add: lorentz_fit_def bind_err_def)
  show ?thesis using lorentz_fit_bandwidth_nonneg [OF e] e by simp
qed

section \<open>What a computation leaves unchanged\<close>

lemma log_only_refl: "log_only v v"
  unfolding log_only_def by (rule exI [of _ "res_log v"]) simp

lemma log_only_trans: "log_only a b \<Longrightarrow> log_only b c \<Longrightarrow> log_only a c"
  unfolding log_only_def by auto

lemma log_only_fields:
  "log_only v v' \<Longrightarrow> cfg v' = cfg v \<and> model v' = model v \<and> last_sample v' = last_sample v"
  unfolding log_only_def by auto

lemma same_flags_refl: "same_flags v v"
  by (simp add: same_flags_def)

lemma same_flags_trans: "same_flags a b \<Longrightarrow> same_flags b c \<Longrightarrow> same_flags a c"
  by (simp add: same_flags_def)

lemma log_only_same_flags: "log_only v v' \<Longrightarrow> same_flags v v'"
  by (auto simp: log_only_def same_flags_def)

lemma io_frameD: "io_frame R m \<Longrightarrow> m v = (r, v') \<Longrightarrow> R v v'"
  unfolding io_frame_def by (metis snd_conv)

lemma io_frame_bind:
  assumes tr: "\<And>a b c. R a b \<Longrightarrow> R b c \<Longrightarrow> R a c"
    and m: "io_frame R m" and f: "\<And>a. io_frame R (f a)"
  shows "io_frame R (io_bind m f)"
  unfolding io_frame_def
proof
  fix v
  obtain r v1 where mv: "m v = (r, v1)" by (cases "m v")
  have r1: "R v v1" using io_frameD [OF m mv] .
  show "R v (snd (io_bind m f v))"
  proof (cases r)
    case (Inl e)
    then show ?thesis using mv r1 by (simp add: io_bind_def)
  next
    case (Inr a)
    obtain r2 v2 where fv: "f a v1 = (r2, v2)" by (cases "f a v1")
    have "R v1 v2" using io_frameD [OF f fv] .
    then show ?thesis using mv Inr fv r1 tr by (auto simp: io_bind_def)
  qed
qed

lemma io_frame_seq:
  assumes tr: "\<And>a b c. R a b \<Longrightarrow> R b c \<Longrightarrow> R a c"
    and m: "io_frame R m" and n: "io_frame R n"
  shows "io_frame R (io_seq m n)"
  unfolding io_seq_def using assms by (intro io_frame_bind)

lemma io_frame_return: "(\<And>v. R v v) \<Longrightarrow> io_frame R (io_return x)"
  by (simp add: io_frame_def io_return_def)

lemma io_frame_raise: "(\<And>v. R v v) \<Longrightarrow> io_frame R (io_raise x)"
  by (simp add: io_frame_def io_raise_def)

lemma io_frame_cond:
  "io_frame R m \<Longrightarrow> io_frame R n \<Longrightarrow> io_frame R (\<lambda>v. (if P v then m else n) v)"
  by (simp add: io_frame_def)

lemma send_write_log_only: "io_frame log_only (send_write l c)"
  by (auto simp: io_frame_def send_write_def Let_def log_only_def)

lemma res_write_log_only: "io_frame log_only (res_write l t args)"
  by (simp add: res_write_def send_write_log_only)

lemma res_values_log_only: "io_frame log_only (res_write_ascii_values l t d args)"
  by (simp add: res_write_ascii_values_def send_write_log_only)

lemma res_query_log_only: "io_frame log_only (res_query l t args)"
  by (auto simp: io_frame_def res_query_def Let_def log_only_def)

lemma res_query_values_log_only: "io_frame log_only (res_query_ascii_values l t args)"
  by (auto simp: io_frame_def res_query_ascii_values_def Let_def log_only_def)

lemmas log_only_intros =
  io_frame_bind [of log_only, OF log_only_trans]
  io_frame_seq [of log_only, OF log_only_trans]
  io_frame_return [of log_only, OF log_only_refl]
  io_frame_raise [of log_only, OF log_only_refl]
  io_frame_cond [of log_only]
  res_write_log_only res_values_log_only res_query_log_only res_query_values_log_only

lemma set_segments_log_only: "io_frame log_only (set_segments l segs ch)"
  unfolding set_segments_def
  by (intro io_frame_cond) (auto split: prod.splits intro!: log_only_intros)

lemma get_marker_data_log_only: "io_frame log_only (get_marker_data l m ch)"
  unfolding get_marker_data_def by (intro log_only_intros)

lemma get_sweep_data_log_only: "io_frame log_only (get_sweep_data l ch)"
  unfolding get_sweep_data_def by (intro log_only_intros)

lemma get_freq_data_log_only: "io_frame log_only (get_freq_data l ch)"
  unfolding get_freq_data_def by (intro log_only_intros)

lemma io_frame_state: "(\<And>u. io_frame R (f u)) \<Longrightarrow> io_frame R (\<lambda>v. f v v)"
  by (simp add: io_frame_def)

lemma force_trigger_log_only: "io_frame log_only (force_trigger l)"
  unfolding force_trigger_def
  by (rule io_frame_state) (auto intro!: log_only_intros)

lemma read_markers_log_only: "io_frame log_only (read_markers l is d)"
proof (induction "is" arbitrary: d)
  case Nil
  show ?case by (simp add: log_only_intros)
next
  case (Cons i rest)
  show ?case
    by (auto intro!: log_only_intros get_marker_data_log_only Cons split: list.splits)
qed

lemma acquire_markers_same_flags: "io_frame same_flags (acquire_markers l)"
  unfolding io_frame_def
proof
  fix v
  obtain r v1 where rm: "read_markers l [0..<length (segments (cfg v))] Sample_init v = (r, v1)"
    by (cases "read_markers l [0..<length (segments (cfg v))] Sample_init v")
  have "log_only v v1" using io_frameD [OF read_markers_log_only rm] .
  then have "same_flags v v1" by (rule log_only_same_flags)
  then show "same_flags v (snd (acquire_markers l v))"
    using rm by (auto simp: acquire_markers_def Let_def same_flags_def split: sum.splits)
qed


lemma io_frame_weaken: "io_frame R m \<Longrightarrow> (\<And>a b. R a b \<Longrightarrow> S a b) \<Longrightarrow> io_frame S m"
  by (simp add: io_frame_def)

lemma trigger_log_only: "io_frame log_only (trigger l)"
  unfolding trigger_def
  by (rule io_frame_state) (auto intro!: log_only_intros)

lemmas same_flags_intros =
  io_frame_bind [of same_flags, OF same_flags_trans]
  io_frame_seq [of same_flags, OF same_flags_trans]
  io_frame_return [of same_flags, OF same_flags_refl]
  io_frame_raise [of same_flags, OF same_flags_refl]
  io_frame_cond [of same_flags]
  io_frame_weaken [OF set_segments_log_only log_only_same_flags]
  io_frame_weaken [OF get_sweep_data_log_only log_only_same_flags]
  io_frame_weaken [OF get_freq_data_log_only log_only_same_flags]
  io_frame_weaken [OF force_trigger_log_only log_only_same_flags]
  io_frame_weaken [OF trigger_log_only log_only_same_flags]

lemma same_flags_segments: "same_flags v (v\<lparr>cfg := (cfg v)\<lparr>segments := segs\<rparr>\<rparr>)"
  by (simp add: same_flags_def)

lemma fit_sweep_same_flags: "io_frame same_flags (fit_sweep l lib freq ampl)"
  unfolding io_frame_def
proof
  fix v :: vna
  let ?tr = "track_freq (cfg v) \<and> track_enabled (cfg v)"
  obtain r segs' where fl:
    "fit_loop lib ?tr freq ampl (segments (cfg v)) 0 False Sample_init = (r, segs')"
    by (cases "fit_loop lib ?tr freq ampl (segments (cfg v)) 0 False Sample_init")
  let ?v1 = "v\<lparr>cfg := (cfg v)\<lparr>segments := segs'\<rparr>\<rparr>"
  have a: "same_flags v ?v1" by (rule same_flags_segments)
  have "io_frame same_flags (io_seq (set_segments l segs' 1) (io_return None :: Sample option io))"
    by (intro same_flags_intros)
  then have b: "same_flags ?v1 (snd (io_seq (set_segments l segs' 1) (io_return None :: Sample option io) ?v1))"
    by (simp add: io_frame_def)
  have c: "same_flags v (snd (io_seq (set_segments l segs' 1) (io_return None :: Sample option io) ?v1))"
    using same_flags_trans [OF a b] .
  show "same_flags v (snd (fit_sweep l lib freq ampl v))"
    using fl a c by (auto simp: fit_sweep_def Let_def split: sum.splits prod.splits)
qed

lemma acquire_sweep_same_flags: "io_frame same_flags (acquire_sweep l lib)"
  unfolding acquire_sweep_def
  by (auto intro!: same_flags_intros fit_sweep_same_flags split: sum.splits)

lemma track_same_flags: "io_frame same_flags (track l data)"
  unfolding io_frame_def
proof
  fix v :: vna
  obtain r segs' where tl:
    "track_loop (cfg v) False (segments (cfg v)) (s_f0 data) (s_bw data) = (r, segs')"
    by (cases "track_loop (cfg v) False (segments (cfg v)) (s_f0 data) (s_bw data)")
  let ?v1 = "v\<lparr>cfg := (cfg v)\<lparr>segments := segs'\<rparr>\<rparr>"
  let ?m = "io_seq (set_segments l segs' 1)
              (if use_markers (cfg ?v1) then force_trigger l else io_return ())"
  have a: "same_flags v ?v1" by (rule same_flags_segments)
  have "io_frame same_flags ?m"
    by (auto intro!: same_flags_intros)
  then have b: "same_flags ?v1 (snd (?m ?v1))"
    by (simp add: io_frame_def)
  have c: "same_flags v (snd (?m ?v1))"
    using same_flags_trans [OF a b] .
  show "same_flags v (snd (track l data v))"
    using tl a c same_flags_refl [of v]
    by (auto simp: track_def Let_def split: sum.splits prod.splits)
qed

lemma sample_same_flags: "io_frame same_flags (sample l lib)"
  unfolding sample_def
  by (auto intro!: same_flags_intros acquire_markers_same_flags acquire_sweep_same_flags
        track_same_flags split: option.splits)

section \<open>Successful runs\<close>

lemma io_bind_Inr_iff:
  "io_bind m f v = (Inr b, v') \<longleftrightarrow> (\<exists>a v1. m v = (Inr a, v1) \<and> f a v1 = (Inr b, v'))"
  by (cases "m v") (auto simp: io_bind_def split: sum.splits)

lemma io_seq_Inr_iff:
  "io_seq m n v = (Inr b, v') \<longleftrightarrow> (\<exists>v1. m v = (Inr (), v1) \<and> n v1 = (Inr b, v'))"
  by (simp add: io_seq_def io_bind_Inr_iff)

lemma log_only_res_write: "res_write l t a v = (r, v1) \<Longrightarrow> log_only v v1"
  by (rule io_frameD [OF res_write_log_only])

lemma log_only_res_reset: "res_reset l v = (r, v1) \<Longrightarrow> log_only v v1"
  unfolding res_reset_def by (rule io_frameD [OF send_write_log_only])

lemma log_only_res_query: "res_query l t a v = (r, v1) \<Longrightarrow> log_only v v1"
  by (rule io_frameD [OF res_query_log_only])

lemma log_only_set_segments: "set_segments l segs ch v = (r, v1) \<Longrightarrow> log_only v v1"
  by (rule io_frameD [OF set_segments_log_only])

lemma log_only_upd: "log_only v v1 \<Longrightarrow> \<exists>lg. v1 = v\<lparr>res_log := lg\<rparr>"
  by (simp add: log_only_def)

lemma io_seqE:
  assumes "io_seq m n v = (Inr b, v')"
  obtains v1 where "m v = (Inr (), v1)" "n v1 = (Inr b, v')"
  using assms by (auto simp: io_seq_Inr_iff)

lemma io_bindE:
  assumes "io_bind m f v = (Inr b, v')"
  obtains a v1 where "m v = (Inr a, v1)" "f a v1 = (Inr b, v')"
  using assms by (auto simp: io_bind_Inr_iff)

lemma log_only_cond_write:
  "(if c then res_write l t a else res_write l t' a') v = (r, v1) \<Longrightarrow> log_only v v1"
  by (auto split: if_splits dest: log_only_res_write)

lemma log_only_if:
  "(if c then m else io_return ()) v = (r, v1) \<Longrightarrow> io_frame log_only m \<Longrightarrow> log_only v v1"
  by (auto split: if_splits simp: io_return_def log_only_refl dest: io_frameD)

text \<open>What a successful \<^const>\<open>VNA_setup\<close> leaves in the object.\<close>

lemma VNA_setup_success:
  assumes "VNA_setup l config v = (Inr (), v')"
  shows "\<exists>c. VNAConfig_init config = Inr c \<and> segments (cfg v') = segments c
           \<and> use_markers (cfg v') = (use_markers c \<and> model v' \<noteq> ''N5232A'')
           \<and> last_sample v' = None"
  using assms unfolding VNA_setup_def
  apply (simp split: sum.splits add: io_raise_def)
  apply (elim io_seqE io_bindE)
  apply (simp split: sum.splits add: io_raise_def)
  apply (elim io_seqE io_bindE)
  apply (drule log_only_res_write log_only_res_reset log_only_res_query log_only_set_segments)+
  apply (drule log_only_if)
   apply (auto intro!: log_only_intros)[1]
  apply (drule log_only_if)
   apply (auto intro!: log_only_intros)[1]
  apply (auto simp: log_only_def split: if_splits)
  done

section \<open>Bandwidth-factor override\<close>

text \<open>C8. Once the override has been set to \<open>x\<close> the effective bandwidth factor read by
  the tracking code, \<^const>\<open>get_bw_factor\<close>, is \<open>x\<close> whatever the nominal factor is; a
  sampling cycle leaves the effective factor as it is; once the override is cleared the
  effective factor is the nominal one, which setting the override never changes.\<close>

theorem bw_factor_override_precedence:
  "get_bw_factor (cfg (snd (set_bw_factor_override (Some x) v))) = x
   \<and> get_bw_factor (cfg (snd (sample l lib v))) = get_bw_factor (cfg v)
   \<and> get_bw_factor (cfg (snd (set_bw_factor_override None v))) = bw_factor (cfg v)
   \<and> bw_factor (cfg (snd (set_bw_factor_override (Some x) v))) = bw_factor (cfg v)"
proof -
  have "same_flags v (snd (sample l lib v))"
    using sample_same_flags [of l lib] by (simp add: io_frame_def)
  then have "get_bw_factor (cfg (snd (sample l lib v))) = get_bw_factor (cfg v)"
    by (simp add: get_bw_factor_def same_flags_def split: option.splits)
  then show ?thesis
    by (simp add: get_bw_factor_def set_bw_factor_override_def)
qed

section \<open>Setup: segment order and acquisition mode\<close>

lemma example_init:
  "VNAConfig_init (example_config um) =
     Inr \<lparr>segments = [Segment_init ''lo'' 100 10 2 1000 0, Segment_init ''lo2'' 100 10 2 1000 0,
                       Segment_init ''hi'' 200 10 2 1000 0],
          track_freq = True, track_span = False, use_markers = um, bw_factor = 8,
          bw_factor_override = None, track_enabled = True\<rparr>"
  by (simp add: VNAConfig_init_def example_config_def example_entry_def bind_err_def
      getitem_def make_segment_def Segment_init_def)

lemma model_of_N5232A: "model_of (example_idn ''N5232A'') = Inr ''N5232A''"
  by (simp add: model_of_def strip_def is_space_def example_idn_def)

lemma model_of_E5071C: "model_of (example_idn ''E5071C'') = Inr ''E5071C''"
  by (simp add: model_of_def strip_def is_space_def example_idn_def)

lemmas setup_eval =
  VNA_setup_def example_init io_seq_def io_bind_def res_reset_def
  res_write_def res_query_def send_write_def example_link_def set_segments_def io_return_def
  res_write_ascii_values_def Let_def

lemma example_setup_N5232A:
  "fst (VNA_setup (example_link (example_idn ''N5232A'') vals) (example_config um) example_vna) = Inr ()
   \<and> model (snd (VNA_setup (example_link (example_idn ''N5232A'') vals) (example_config um) example_vna)) = ''N5232A''"
  by (simp add: setup_eval model_of_N5232A split: prod.splits)

lemma example_setup_E5071C:
  "fst (VNA_setup (example_link (example_idn ''E5071C'') vals) (example_config um) example_vna) = Inr ()
   \<and> model (snd (VNA_setup (example_link (example_idn ''E5071C'') vals) (example_config um) example_vna)) = ''E5071C''"
  by (simp add: setup_eval model_of_E5071C split: prod.splits)

lemma setup_run:
  "fst (VNA_setup l c v) = Inr () \<Longrightarrow> VNA_setup l c v = (Inr (), snd (VNA_setup l c v))"
  by (cases "VNA_setup l c v") simp

lemma VNAConfig_init_sorted:
  assumes "VNAConfig_init config = Inr c"
  shows "\<exists>items segs. c_segments config = Some items \<and> make_segments items = Inr segs
            \<and> segments c = sort_key seg_f0 segs"
  using assms unfolding VNAConfig_init_def
  by (auto simp: bind_err_Inr_iff getitem_def split: option.splits)

lemma make_segments_fields:
  assumes "make_segments items = Inr segs"
  shows "map seg_name segs = map fst items
         \<and> map (\<lambda>s. Some (seg_f0 s)) segs = map (\<lambda>ns. e_f0 (snd ns)) items"
  using assms
proof (induction items arbitrary: segs)
  case Nil
  then show ?case by simp
next
  case (Cons ns rest)
  from Cons.prems obtain s ss where
    s: "make_segment ns = Inr s" and ss: "make_segments rest = Inr ss" and e: "segs = s # ss"
    by (auto simp: bind_err_Inr_iff)
  from s have "seg_name s = fst ns \<and> Some (seg_f0 s) = e_f0 (snd ns)"
    by (auto simp: make_segment_def bind_err_Inr_iff getitem_def Segment_init_def
        split: option.splits)
  then show ?case using Cons.IH [OF ss] e by simp
qed

text \<open>C7, as the code has it. After a successful setup the segment sequence is in
  ascending order of \<open>f0\<close>. It is the stable sort of the segments built from the
  configuration's segment map, unsorted or not: a rearrangement of them in which the
  segments of any one \<open>f0\<close> keep the order they have in the map. The order is not
  strict.\<close>

theorem setup_segments_ascending:
  assumes "VNA_setup l config v = (Inr (), v')"
  shows "sorted (map seg_f0 (segments (cfg v')))
         \<and> (\<exists>items segs. c_segments config = Some items \<and> make_segments items = Inr segs
               \<and> map seg_name segs = map fst items
               \<and> map (\<lambda>s. Some (seg_f0 s)) segs = map (\<lambda>ns. e_f0 (snd ns)) items
               \<and> mset (segments (cfg v')) = mset segs
               \<and> (\<forall>k. filter (\<lambda>s. seg_f0 s = k) (segments (cfg v'))
                        = filter (\<lambda>s. seg_f0 s = k) segs)
               \<and> segments (cfg v') = sort_key seg_f0 segs)"
proof -
  from VNA_setup_success [OF assms] obtain c where
    c: "VNAConfig_init config = Inr c" and s: "segments (cfg v') = segments c"
    by blast
  from VNAConfig_init_sorted [OF c] obtain items segs where
    i: "c_segments config = Some items" "make_segments items = Inr segs"
    and k: "segments c = sort_key seg_f0 segs"
    by blast
  have st: "\<forall>k. filter (\<lambda>s. seg_f0 s = k) (segments (cfg v'))
                        = filter (\<lambda>s. seg_f0 s = k) segs"
    using s k by (simp add: sort_key_stable)
  show ?thesis using s i k st make_segments_fields [OF i(2)] by auto
qed

text \<open>The example configuration lists \<open>hi\<close> at 200 Hz before \<open>lo\<close> and \<open>lo2\<close>, both at
  100 Hz; it is set up successfully and comes out ascending, \<open>lo\<close> before \<open>lo2\<close>.\<close>

theorem setup_segments_ascending_witness:
  "fst (VNA_setup (example_link (example_idn ''E5071C'') []) (example_config False) example_vna) = Inr ()
   \<and> map fst (the (c_segments (example_config False))) = [''hi'', ''lo'', ''lo2'']
   \<and> map seg_name (segments (cfg (snd
        (VNA_setup (example_link (example_idn ''E5071C'') []) (example_config False) example_vna))))
       = [''lo'', ''lo2'', ''hi'']
   \<and> sorted (map seg_f0 (segments (cfg (snd
        (VNA_setup (example_link (example_idn ''E5071C'') []) (example_config False) example_vna)))))"
proof -
  let ?r = "VNA_setup (example_link (example_idn ''E5071C'') []) (example_config False) example_vna"
  have ok: "fst ?r = Inr ()"
    using example_setup_E5071C [of "[]" False] by simp
  from VNA_setup_success [OF setup_run [OF ok]] example_init [of False]
  have n: "map seg_name (segments (cfg (snd ?r))) = [''lo'', ''lo2'', ''hi'']"
    by (auto simp: Segment_init_def)
  show ?thesis using setup_segments_ascending [OF setup_run [OF ok]] ok n
    by (simp add: example_config_def)
qed

text \<open>C7 as stated fails: two segments configured at 100 Hz give the sequence
  100, 100, 200, which is not strictly ascending.\<close>

theorem setup_segments_strict_counterexample:
  "fst (VNA_setup (example_link (example_idn ''E5071C'') []) (example_config False) example_vna) = Inr ()
   \<and> map seg_f0 (segments (cfg (snd
        (VNA_setup (example_link (example_idn ''E5071C'') []) (example_config False) example_vna))))
       = [100, 100, 200]
   \<and> \<not> sorted_wrt (<) [100, 100, 200 :: real]"
proof -
  let ?r = "VNA_setup (example_link (example_idn ''E5071C'') []) (example_config False) example_vna"
  have ok: "fst ?r = Inr ()" using example_setup_E5071C [of "[]" False] by simp
  from VNA_setup_success [OF setup_run [OF ok]] example_init [of False]
  have "map seg_f0 (segments (cfg (snd ?r))) = [100, 100, 200]"
    by (auto simp: Segment_init_def)
  then show ?thesis using ok by simp
qed

lemma set_segment_enabled_same_flags: "io_frame same_flags (set_segment_enabled l i b)"
  unfolding io_frame_def
proof
  fix v :: vna
  show "same_flags v (snd (set_segment_enabled l i b v))"
  proof (cases "0 \<le> (if i < 0 then int (length (segments (cfg v))) + i else i)
                \<and> (if i < 0 then int (length (segments (cfg v))) + i else i)
                    < int (length (segments (cfg v)))")
    case False
    then show ?thesis by (auto simp: set_segment_enabled_def Let_def same_flags_refl)
  next
    case True
    let ?j = "if i < 0 then int (length (segments (cfg v))) + i else i"
    let ?segs = "(segments (cfg v))[nat ?j := (segments (cfg v) ! nat ?j)\<lparr>seg_enabled := b\<rparr>]"
    let ?v1 = "v\<lparr>cfg := (cfg v)\<lparr>segments := ?segs\<rparr>\<rparr>"
    have "log_only ?v1 (snd (set_segments l ?segs 1 ?v1))"
      using set_segments_log_only by (simp add: io_frame_def)
    then have "same_flags ?v1 (snd (set_segments l ?segs 1 ?v1))" by (rule log_only_same_flags)
    then have "same_flags v (snd (set_segments l ?segs 1 ?v1))"
      using same_flags_trans [OF same_flags_segments] by blast
    then show ?thesis using True by (simp add: set_segment_enabled_def Let_def)
  qed
qed

lemma reset_tracking_same_flags: "io_frame same_flags (reset_tracking l)"
  unfolding io_frame_def
proof
  fix v :: vna
  let ?segs = "map (\<lambda>s. s\<lparr>seg_f0 := seg_f0_default s, seg_span := seg_span_default s\<rparr>)
                   (segments (cfg v))"
  let ?v1 = "v\<lparr>cfg := (cfg v)\<lparr>segments := ?segs\<rparr>\<rparr>"
  have "log_only ?v1 (snd (set_segments l ?segs 1 ?v1))"
    using set_segments_log_only by (simp add: io_frame_def)
  then have "same_flags ?v1 (snd (set_segments l ?segs 1 ?v1))" by (rule log_only_same_flags)
  then have "same_flags v (snd (set_segments l ?segs 1 ?v1))"
    using same_flags_trans [OF same_flags_segments] by blast
  then show "same_flags v (snd (reset_tracking l v))"
    by (simp add: reset_tracking_def Let_def)
qed

lemma reach_mode:
  assumes "reach l lib v0 v1"
  shows "model v1 = model v0 \<and> use_markers (cfg v1) = use_markers (cfg v0)"
  using assms
proof (induction rule: reach.induct)
  case (reach_refl v)
  show ?case by simp
next
  case (reach_sample v v1)
  have "same_flags v1 (snd (sample l lib v1))"
    using sample_same_flags by (simp add: io_frame_def)
  with reach_sample.IH show ?case by (simp add: same_flags_def)
next
  case (reach_enable v v1 i b)
  have "same_flags v1 (snd (set_segment_enabled l i b v1))"
    using set_segment_enabled_same_flags by (simp add: io_frame_def)
  with reach_enable.IH show ?case by (simp add: same_flags_def)
next
  case (reach_override v v1 f)
  then show ?case by (simp add: set_bw_factor_override_def)
next
  case (reach_tracking v v1 b)
  then show ?case by (simp add: set_tracking_override_def)
next
  case (reach_reset v v1)
  have "same_flags v1 (snd (reset_tracking l v1))"
    using reset_tracking_same_flags by (simp add: io_frame_def)
  with reach_reset.IH show ?case by (simp add: same_flags_def)
qed

lemma sample_raw_mode:
  assumes "\<not> use_markers (cfg v)"
  shows "sample l lib v =
           io_seq (trigger l)
             (io_bind (acquire_sweep l lib) (\<lambda>r.
                case r of None \<Rightarrow> io_return None
                | Some data \<Rightarrow> io_seq (track l data) (io_return (Some data)))) v"
proof -
  obtain r v1 where t: "trigger l v = (r, v1)" by (cases "trigger l v")
  have "log_only v v1" using io_frameD [OF trigger_log_only t] .
  then have "\<not> use_markers (cfg v1)" using assms by (auto simp: log_only_def)
  then show ?thesis using assms t
    by (simp add: sample_def io_seq_def io_bind_def split: sum.splits)
qed

lemma sample_marker_mode:
  assumes "use_markers (cfg v)"
  shows "sample l lib v =
           io_bind (acquire_markers l) (\<lambda>r.
                case r of None \<Rightarrow> io_return None
                | Some data \<Rightarrow> io_seq (track l data) (io_return (Some data))) v"
  using assms by (simp add: sample_def io_seq_def io_bind_def io_return_def)

text \<open>C9. When setup succeeds and the detected model is N5232A, \<^verbatim>\<open>use_markers\<close> is
  false whatever the configuration says, it stays false in every state reached by
  sampling cycles and mutation requests, and in each such state a sampling cycle is the
  raw-sweep cycle: trigger, sweep acquisition and fit, tracking.\<close>

theorem N5232A_never_uses_markers:
  assumes "VNA_setup l config v = (Inr (), v0)" and "model v0 = ''N5232A''"
    and "reach l lib v0 v1"
  shows "\<not> use_markers (cfg v0) \<and> \<not> use_markers (cfg v1) \<and> model v1 = ''N5232A''
         \<and> sample l lib v1 =
             io_seq (trigger l)
               (io_bind (acquire_sweep l lib) (\<lambda>r.
                  case r of None \<Rightarrow> io_return None
                  | Some data \<Rightarrow> io_seq (track l data) (io_return (Some data)))) v1"
proof -
  from VNA_setup_success [OF assms(1)] assms(2) have a: "\<not> use_markers (cfg v0)" by auto
  from reach_mode [OF assms(3)] a assms(2)
  have b: "\<not> use_markers (cfg v1)" and c: "model v1 = ''N5232A''" by simp_all
  show ?thesis using a b c sample_raw_mode [OF b] by simp
qed

text \<open>A configuration asking for markers, set up on an N5232A, after one cycle.\<close>

theorem N5232A_never_uses_markers_witness:
  "fst (VNA_setup (example_link (example_idn ''N5232A'') []) (example_config True) example_vna) = Inr ()
   \<and> c_use_markers (example_config True) = Some True
   \<and> \<not> use_markers (cfg (snd (sample (example_link (example_idn ''N5232A'') [])
        (example_scipy (Inl RuntimeError) (Inr 1))
        (snd (VNA_setup (example_link (example_idn ''N5232A'') []) (example_config True) example_vna)))))"
proof -
  have ok: "fst (VNA_setup (example_link (example_idn ''N5232A'') []) (example_config True)
                   example_vna) = Inr ()"
    and m: "model (snd (VNA_setup (example_link (example_idn ''N5232A'') []) (example_config True)
                   example_vna)) = ''N5232A''"
    using example_setup_N5232A [of "[]" True] by simp_all
  show ?thesis
    using N5232A_never_uses_markers [OF setup_run [OF ok] m reach_sample [OF reach_refl],
        of "example_scipy (Inl RuntimeError) (Inr 1)"] ok
    by (simp add: example_config_def)
qed

section \<open>The fitted lineshape and the normalisation\<close>

text \<open>C2, as the code has it. On a non-empty input of non-negative amplitudes with a
  non-zero peak and a non-zero frequency span, \<^const>\<open>lorentz_fit\<close> hands the solver the
  function \<^const>\<open>lorentz_fn\<close>, the frequencies normalised to \<open>[0,1]\<close> over the input span,
  the amplitudes normalised to \<open>[0,1]\<close> by their maximum and the start
  \<open>(0.5, 0.5, 1.0)\<close>; from the solver's \<open>(f0, bw, pmax)\<close> it returns the bandwidth
  \<open>\<bar>bw\<bar> * span\<close>, the centre \<open>f0 * span + min\<close>, their quotient as quality factor, and the
  insertion loss \<open>20 * log 10 (pmax * peak)\<close>. The function fitted is
  \<open>pmax / sqrt (1 + 4 * ((x - f0) / bw)\<^sup>2)\<close>.\<close>

theorem lorentz_fit_algorithm:
  fixes freq ampl :: "real list"
  defines "minf \<equiv> Min (set freq)" and "fspan \<equiv> Max (set freq) - Min (set freq)"
    and "maxa \<equiv> Max (set ampl)"
  defines "normf \<equiv> map (\<lambda>f. (f - minf) / fspan) freq"
    and "norma \<equiv> map (\<lambda>a. a / maxa) ampl"
  assumes ne: "freq \<noteq> []" "ampl \<noteq> []" and pos: "\<forall>a\<in>set ampl. 0 \<le> a"
    and peak: "maxa \<noteq> 0" and sp: "fspan \<noteq> 0"
    and fit: "curve_fit lib lorentz_fn normf norma (0.5, 0.5, 1.0) = Inr (p_f0, p_bw, p_pmax)"
  shows "lorentz_fit lib freq ampl
           = Inr (\<bar>p_bw\<bar> * fspan, p_f0 * fspan + minf,
                  (p_f0 * fspan + minf) / (\<bar>p_bw\<bar> * fspan), 20 * log 10 (p_pmax * maxa))
         \<and> (\<forall>x\<in>set normf. 0 \<le> x \<and> x \<le> 1) \<and> (\<forall>y\<in>set norma. 0 \<le> y \<and> y \<le> 1)
         \<and> (\<forall>x f0 bw pmax. lorentz_fn x f0 bw pmax = pmax / sqrt (1 + 4 * ((x - f0) / bw)\<^sup>2))"
proof -
  have res: "lorentz_fit lib freq ampl
           = Inr (\<bar>p_bw\<bar> * fspan, p_f0 * fspan + minf,
                  (p_f0 * fspan + minf) / (\<bar>p_bw\<bar> * fspan), 20 * log 10 (p_pmax * maxa))"
    using ne peak sp fit
    unfolding lorentz_fit_def minf_def fspan_def maxa_def normf_def norma_def
    by (simp add: bind_err_def Let_def)
  have fin: "finite (set freq)" "finite (set ampl)" by simp_all
  have fpos: "0 < fspan"
  proof -
    have "Min (set freq) \<le> Max (set freq)" using ne by (simp add: Min_le_iff)
    then show ?thesis using sp by (simp add: fspan_def)
  qed
  have nf: "0 \<le> x \<and> x \<le> 1" if "x \<in> set normf" for x
  proof -
    from that obtain f where f: "f \<in> set freq" and x: "x = (f - minf) / fspan"
      by (auto simp: normf_def)
    have "0 \<le> f - minf" "f - minf \<le> fspan" using f by (simp_all add: minf_def fspan_def)
    then show ?thesis using fpos x by simp
  qed
  have apos: "0 < maxa"
  proof -
    have "maxa \<in> set ampl" unfolding maxa_def using ne by (intro Max_in) simp_all
    then show ?thesis using pos peak by fastforce
  qed
  have na: "0 \<le> y \<and> y \<le> 1" if "y \<in> set norma" for y
  proof -
    from that obtain a where a: "a \<in> set ampl" and y: "y = a / maxa"
      by (auto simp: norma_def)
    have "0 \<le> a" "a \<le> maxa" using a pos by (simp_all add: maxa_def)
    then show ?thesis using apos y by simp
  qed
  show ?thesis using res nf na by (simp add: lorentz_fn_def)
qed

text \<open>Two points ten hertz apart with a solver that answers \<open>(1/2, 1/4, 1)\<close>.\<close>

theorem lorentz_fit_algorithm_witness:
  "lorentz_fit (example_scipy (Inr (1 / 2, 1 / 4, 1)) (Inr 0)) [0, 10] [1, 2]
     = Inr (5 / 2, 5, 2, 20 * log 10 2)"
  using lorentz_fit_algorithm [of "[0, 10]" "[1, 2]" "example_scipy (Inr (1 / 2, 1 / 4, 1)) (Inr 0)"
      "1 / 2" "1 / 4" 1]
  by (simp add: example_scipy_def)

text \<open>C2 as stated fails on the lineshape: a solver that evaluates the function it is
  handed at \<open>x = 1\<close>, \<open>f0 = 0\<close>, \<open>bw = 1\<close>, \<open>pmax = 1\<close> gets \<open>1 / sqrt 5\<close>, where the
  specification's formula gives \<open>1 / sqrt 17\<close>.\<close>

theorem lorentz_fit_lineshape_counterexample:
  "lorentz_fit \<lparr>curve_fit = (\<lambda>f xs ys p. Inr (f 1 0 1 1, 1, 1)),
                 linregress = (\<lambda>x y. Inr 0)\<rparr> [0, 1] [1, 1]
     = Inr (1, 1 / sqrt 5, 1 / sqrt 5, 0)
   \<and> lineshape_spec 1 0 1 1 = 1 / sqrt 17
   \<and> 1 / sqrt 5 \<noteq> 1 / sqrt 17"
  by (simp add: lorentz_fit_def bind_err_def lorentz_fn_def lineshape_spec_def)

section \<open>The tracking controller\<close>








section \<open>Marker mode: staleness and disabled segments\<close>

lemma track_last_sample: "last_sample (snd (track l data v)) = last_sample v"
proof -
  obtain r segs' where tl:
    "track_loop (cfg v) False (segments (cfg v)) (s_f0 data) (s_bw data) = (r, segs')"
    by (cases "track_loop (cfg v) False (segments (cfg v)) (s_f0 data) (s_bw data)")
  let ?v1 = "v\<lparr>cfg := (cfg v)\<lparr>segments := segs'\<rparr>\<rparr>"
  let ?m = "io_seq (set_segments l segs' 1)
              (if use_markers (cfg ?v1) then force_trigger l else io_return ())"
  have "io_frame log_only ?m"
    by (auto intro!: log_only_intros set_segments_log_only force_trigger_log_only)
  then have "log_only ?v1 (snd (?m ?v1))" by (simp add: io_frame_def)
  then have "last_sample (snd (?m ?v1)) = last_sample v"
    using log_only_fields by fastforce
  then show ?thesis using tl
    by (auto simp: track_def Let_def split: sum.splits prod.splits)
qed

lemma acquire_markers_accept:
  assumes "acquire_markers l v = (Inr (Some d), v1)"
  shows "last_sample v1 = Some [s_bw d, s_f0 d, s_q d]"
  using assms
  by (auto simp: acquire_markers_def Let_def split: prod.splits sum.splits if_splits)

lemma acquire_markers_stale:
  assumes rd: "read_markers l [0..<length (segments (cfg v))] Sample_init v = (Inr d, v1)"
    and ls: "last_sample v = Some [s_bw d, s_f0 d, s_q d]"
  shows "acquire_markers l v = (Inr None, v1) \<and> last_sample v1 = last_sample v"
proof -
  have "log_only v v1" using io_frameD [OF read_markers_log_only rd] .
  then have "last_sample v1 = last_sample v" using log_only_fields by blast
  then show ?thesis using rd ls by (simp add: acquire_markers_def Let_def)
qed

text \<open>C4. In marker mode, when a cycle returned a Sample, its \<open>bw\<close>, \<open>f0\<close> and \<open>q\<close>
  sequences are what the staleness cache holds; if the next cycle reads sequences
  identical to them, that cycle returns no result and leaves the cache as it was. So
  two consecutive identical readouts give one Sample and one no-result.\<close>

theorem marker_staleness:
  assumes um: "use_markers (cfg v)"
    and first: "sample l lib v = (Inr (Some d), v1)"
    and second: "read_markers l [0..<length (segments (cfg v1))] Sample_init v1 = (Inr d', v2)"
    and same: "s_bw d' = s_bw d" "s_f0 d' = s_f0 d" "s_q d' = s_q d"
  shows "last_sample v1 = Some [s_bw d, s_f0 d, s_q d]
         \<and> sample l lib v1 = (Inr None, v2)
         \<and> last_sample v2 = last_sample v1"
proof -
  from first um obtain a va where
    acq: "acquire_markers l v = (Inr a, va)"
    and rest: "(case a of None \<Rightarrow> io_return None
                | Some data \<Rightarrow> io_seq (track l data) (io_return (Some data))) va
               = (Inr (Some d), v1)"
    by (auto simp: sample_marker_mode elim: io_bindE)
  from rest obtain d0 where a: "a = Some d0"
    by (cases a) (auto simp: io_return_def)
  from rest a have tr: "track l d (va) = (Inr (), v1)" and d0: "d0 = d"
    by (auto simp: io_return_def elim!: io_seqE)
  have l1: "last_sample v1 = Some [s_bw d, s_f0 d, s_q d]"
    using acquire_markers_accept [of l v d va] acq a d0 track_last_sample [of l d va] tr
    by simp
  have "same_flags v (snd (sample l lib v))"
    using sample_same_flags [of l lib] by (simp add: io_frame_def)
  then have um1: "use_markers (cfg v1)" using um first by (simp add: same_flags_def)
  from acquire_markers_stale [OF second] l1 same
  have st: "acquire_markers l v1 = (Inr None, v2)" and l2: "last_sample v2 = last_sample v1"
    by simp_all
  have "sample l lib v1 = (Inr None, v2)"
    using st um1 by (simp add: sample_marker_mode io_bind_def io_return_def)
  then show ?thesis using l1 l2 by simp
qed

lemma example_marker_cycle:
  assumes "\<not> tf" "\<not> ts"
  shows "sample (example_link idn [bw, f0, q, il]) lib
           (example_state m True tf ts [seg]\<lparr>last_sample := ls, res_log := lg\<rparr>)
         = (if ls = Some [[Some bw], [Some f0], [Some q]] then Inr None
            else Inr (Some \<lparr>s_bw = [Some bw], s_f0 = [Some f0], s_q = [Some q],
                            s_il = [Some il], s_freq = [], s_ampl = []\<rparr>),
            example_state m True tf ts [seg]
              \<lparr>last_sample := Some [[Some bw], [Some f0], [Some q]],
               res_log := lg @ [QueryValues '':CALC{}:MARK{}:BWID:DATA?'' [AInt 1, AInt 1]]\<rparr>)"
  using assms
  by (simp add: sample_marker_mode example_state_def example_link_def io_bind_def io_seq_def
      io_return_def acquire_markers_def get_marker_data_def res_query_ascii_values_def
      Sample_init_def track_def Let_def)

text \<open>An instrument that answers every marker query with the same four values, read
  twice.\<close>

theorem marker_staleness_witness:
  "sample (example_link (example_idn ''E5071C'') [5, 100, 20, - 3])
      (example_scipy (Inl RuntimeError) (Inr 1))
      (example_state ''E5071C'' True False False [Segment_init ''a'' 100 10 2 1000 0])
     = (Inr (Some \<lparr>s_bw = [Some 5], s_f0 = [Some 100], s_q = [Some 20], s_il = [Some (- 3)],
                     s_freq = [], s_ampl = []\<rparr>),
        example_state ''E5071C'' True False False [Segment_init ''a'' 100 10 2 1000 0]
          \<lparr>last_sample := Some [[Some 5], [Some 100], [Some 20]],
           res_log := [QueryValues '':CALC{}:MARK{}:BWID:DATA?'' [AInt 1, AInt 1]]\<rparr>)
   \<and> sample (example_link (example_idn ''E5071C'') [5, 100, 20, - 3])
      (example_scipy (Inl RuntimeError) (Inr 1))
      (example_state ''E5071C'' True False False [Segment_init ''a'' 100 10 2 1000 0]
          \<lparr>last_sample := Some [[Some 5], [Some 100], [Some 20]],
           res_log := [QueryValues '':CALC{}:MARK{}:BWID:DATA?'' [AInt 1, AInt 1]]\<rparr>)
     = (Inr None,
        example_state ''E5071C'' True False False [Segment_init ''a'' 100 10 2 1000 0]
          \<lparr>last_sample := Some [[Some 5], [Some 100], [Some 20]],
           res_log := [QueryValues '':CALC{}:MARK{}:BWID:DATA?'' [AInt 1, AInt 1],
                       QueryValues '':CALC{}:MARK{}:BWID:DATA?'' [AInt 1, AInt 1]]\<rparr>)"
proof -
  let ?l = "example_link (example_idn ''E5071C'') [5, 100, 20, - 3]"
  let ?lib = "example_scipy (Inl RuntimeError) (Inr 1)"
  let ?v = "example_state ''E5071C'' True False False [Segment_init ''a'' 100 10 2 1000 0]"
  let ?q = "QueryValues '':CALC{}:MARK{}:BWID:DATA?'' [AInt 1, AInt 1]"
  let ?d = "\<lparr>s_bw = [Some 5], s_f0 = [Some 100], s_q = [Some 20], s_il = [Some (- 3)],
             s_freq = [], s_ampl = []\<rparr>"
  let ?v1 = "?v\<lparr>last_sample := Some [[Some 5], [Some 100], [Some 20]], res_log := [?q]\<rparr>"
  let ?v2 = "?v\<lparr>last_sample := Some [[Some 5], [Some 100], [Some 20]], res_log := [?q, ?q]\<rparr>"
  have um: "use_markers (cfg ?v)" by (simp add: example_state_def)
  have first: "sample ?l ?lib ?v = (Inr (Some ?d), ?v1)"
    using example_marker_cycle [where tf = False and ts = False
        and idn = "example_idn ''E5071C''" and bw = 5 and ?f0.0 = 100 and q = 20 and il = "- 3"
        and lib = ?lib and m = "''E5071C''" and seg = "Segment_init ''a'' 100 10 2 1000 0"
        and ls = None and lg = "[]"]
    by (simp add: example_state_def)
  have second: "read_markers ?l [0..<length (segments (cfg ?v1))] Sample_init ?v1 = (Inr ?d, ?v2)"
    by (simp add: example_state_def example_link_def io_bind_def io_return_def
        get_marker_data_def res_query_ascii_values_def Sample_init_def)
  from marker_staleness [OF um first second] first
  show ?thesis by simp
qed

text \<open>C5 fails in marker mode. With the only segment disabled the marker loop still
  queries marker 1 and the Sample's slot holds the values read, not the empty marker;
  \<^verbatim>\<open>seg.enabled\<close> is not read in the marker branch.\<close>

theorem marker_mode_fills_disabled_slot:
  "sample (example_link (example_idn ''E5071C'') [5, 100, 20, - 3])
      (example_scipy (Inl RuntimeError) (Inr 1))
      (example_state ''E5071C'' True False False
         [(Segment_init ''a'' 100 10 2 1000 0)\<lparr>seg_enabled := False\<rparr>])
     = (Inr (Some \<lparr>s_bw = [Some 5], s_f0 = [Some 100], s_q = [Some 20], s_il = [Some (- 3)],
                     s_freq = [], s_ampl = []\<rparr>),
        example_state ''E5071C'' True False False
          [(Segment_init ''a'' 100 10 2 1000 0)\<lparr>seg_enabled := False\<rparr>]
          \<lparr>last_sample := Some [[Some 5], [Some 100], [Some 20]],
           res_log := [QueryValues '':CALC{}:MARK{}:BWID:DATA?'' [AInt 1, AInt 1]]\<rparr>)"
  using example_marker_cycle [where tf = False and ts = False
      and idn = "example_idn ''E5071C''" and bw = 5 and ?f0.0 = 100 and q = 20 and il = "- 3"
      and lib = "example_scipy (Inl RuntimeError) (Inr 1)" and m = "''E5071C''"
      and seg = "(Segment_init ''a'' 100 10 2 1000 0)\<lparr>seg_enabled := False\<rparr>"
      and ls = None and lg = "[]"]
  by (simp add: example_state_def)



section \<open>Transport failures\<close>

lemma raises_throughD:
  assumes "raises_through l m" "m v = (r, v')"
  shows "\<exists>ext. res_log v' = res_log v @ ext" and "faulted l v v' \<Longrightarrow> r = Inl VisaIOError"
  using assms unfolding raises_through_def by blast+

lemma rt_quiet:
  assumes "\<And>v. res_log (snd (m v)) = res_log v"
  shows "raises_through l m"
  unfolding raises_through_def faulted_def
proof (intro allI impI conjI)
  fix v r v' assume "m v = (r, v')"
  then have e: "res_log v' = res_log v" using assms [of v] by simp
  then show "\<exists>ext. res_log v' = res_log v @ ext" by simp
  assume "\<exists>k>length (res_log v). k \<le> length (res_log v') \<and> link_fault l (take k (res_log v'))"
  then show "r = Inl VisaIOError" using e by auto
qed

lemma rt_return: "raises_through l (io_return x)"
  by (rule rt_quiet) (simp add: io_return_def)

lemma rt_raise: "raises_through l (io_raise e)"
  by (rule rt_quiet) (simp add: io_raise_def)

lemma rt_assign: "(\<And>v. res_log (g v) = res_log v) \<Longrightarrow> raises_through l (\<lambda>v. (Inr x, g v))"
  by (rule rt_quiet) simp

lemma faulted_one:
  assumes "res_log v' = res_log v @ [c]"
  shows "faulted l v v' \<longleftrightarrow> link_fault l (res_log v @ [c])"
proof -
  have "k = Suc (length (res_log v))" if "length (res_log v) < k" "k \<le> length (res_log v')" for k
    using that assms by simp
  then show ?thesis unfolding faulted_def using assms
    by (metis le_refl length_append_singleton lessI take_all)
qed

lemma rt_res_write: "raises_through l (res_write l t a)"
  unfolding raises_through_def
proof (intro allI impI)
  fix v r v' assume h: "res_write l t a v = (r, v')"
  then have lg: "res_log v' = res_log v @ [Write t a]"
    by (auto simp: res_write_def send_write_def Let_def)
  show "(\<exists>ext. res_log v' = res_log v @ ext) \<and> (faulted l v v' \<longrightarrow> r = Inl VisaIOError)"
    using h lg faulted_one [OF lg, of l]
    by (auto simp: res_write_def send_write_def Let_def link_fault_def split: if_splits)
qed

lemma rt_res_reset: "raises_through l (res_reset l)"
  unfolding raises_through_def
proof (intro allI impI)
  fix v r v' assume h: "res_reset l v = (r, v')"
  then have lg: "res_log v' = res_log v @ [Reset]"
    by (auto simp: res_reset_def send_write_def Let_def)
  show "(\<exists>ext. res_log v' = res_log v @ ext) \<and> (faulted l v v' \<longrightarrow> r = Inl VisaIOError)"
    using h lg faulted_one [OF lg, of l]
    by (auto simp: res_reset_def send_write_def Let_def link_fault_def split: if_splits)
qed

lemma rt_res_write_values: "raises_through l (res_write_ascii_values l t d a)"
  unfolding raises_through_def
proof (intro allI impI)
  fix v r v' assume h: "res_write_ascii_values l t d a v = (r, v')"
  then have lg: "res_log v' = res_log v @ [WriteValues t d a]"
    by (auto simp: res_write_ascii_values_def send_write_def Let_def)
  show "(\<exists>ext. res_log v' = res_log v @ ext) \<and> (faulted l v v' \<longrightarrow> r = Inl VisaIOError)"
    using h lg faulted_one [OF lg, of l]
    by (auto simp: res_write_ascii_values_def send_write_def Let_def link_fault_def
        split: if_splits)
qed

lemma rt_res_query: "raises_through l (res_query l t a)"
  unfolding raises_through_def
proof (intro allI impI)
  fix v r v' assume h: "res_query l t a v = (r, v')"
  then have lg: "res_log v' = res_log v @ [Query t a]"
    by (auto simp: res_query_def Let_def)
  show "(\<exists>ext. res_log v' = res_log v @ ext) \<and> (faulted l v v' \<longrightarrow> r = Inl VisaIOError)"
    using h lg faulted_one [OF lg, of l]
    by (auto simp: res_query_def Let_def link_fault_def split: option.splits)
qed

lemma rt_res_query_values: "raises_through l (res_query_ascii_values l t a)"
  unfolding raises_through_def
proof (intro allI impI)
  fix v r v' assume h: "res_query_ascii_values l t a v = (r, v')"
  then have lg: "res_log v' = res_log v @ [QueryValues t a]"
    by (auto simp: res_query_ascii_values_def Let_def)
  show "(\<exists>ext. res_log v' = res_log v @ ext) \<and> (faulted l v v' \<longrightarrow> r = Inl VisaIOError)"
    using h lg faulted_one [OF lg, of l]
    by (auto simp: res_query_ascii_values_def Let_def link_fault_def split: option.splits)
qed

lemma faulted_split:
  assumes "res_log v1 = res_log v @ e1" "res_log v2 = res_log v1 @ e2" "faulted l v v2"
  shows "faulted l v v1 \<or> faulted l v1 v2"
proof -
  from assms(3) obtain k where k: "length (res_log v) < k" "k \<le> length (res_log v2)"
    "link_fault l (take k (res_log v2))"
    unfolding faulted_def by blast
  show ?thesis
  proof (cases "k \<le> length (res_log v1)")
    case True
    then have "take k (res_log v2) = take k (res_log v1)" using assms(2) by simp
    then show ?thesis using k True unfolding faulted_def by auto
  next
    case False
    then show ?thesis using k unfolding faulted_def by auto
  qed
qed

lemma rt_bind:
  assumes m: "raises_through l m" and f: "\<And>a. raises_through l (f a)"
  shows "raises_through l (io_bind m f)"
  unfolding raises_through_def
proof (intro allI impI)
  fix v r v' assume h: "io_bind m f v = (r, v')"
  obtain r1 v1 where mv: "m v = (r1, v1)" by (cases "m v")
  from raises_throughD [OF m mv] obtain e1 where
    e1: "res_log v1 = res_log v @ e1" and f1: "faulted l v v1 \<Longrightarrow> r1 = Inl VisaIOError"
    by blast
  show "(\<exists>ext. res_log v' = res_log v @ ext) \<and> (faulted l v v' \<longrightarrow> r = Inl VisaIOError)"
  proof (cases r1)
    case (Inl e)
    then have "r = Inl e" "v' = v1" using h mv by (simp_all add: io_bind_def)
    then show ?thesis using e1 f1 Inl by auto
  next
    case (Inr a)
    then have fa: "f a v1 = (r, v')" using h mv by (simp add: io_bind_def)
    from raises_throughD [OF f fa] obtain e2 where
      e2: "res_log v' = res_log v1 @ e2" and f2: "faulted l v1 v' \<Longrightarrow> r = Inl VisaIOError"
      by blast
    have "r = Inl VisaIOError" if "faulted l v v'"
      using faulted_split [OF e1 e2 that] f1 f2 Inr by auto
    then show ?thesis using e1 e2 by auto
  qed
qed

lemma rt_seq: "raises_through l m \<Longrightarrow> raises_through l n \<Longrightarrow> raises_through l (io_seq m n)"
  unfolding io_seq_def by (rule rt_bind)

lemma rt_state: "(\<And>u. raises_through l (f u)) \<Longrightarrow> raises_through l (\<lambda>v. f v v)"
  unfolding raises_through_def by blast

lemma rt_if: "raises_through l m \<Longrightarrow> raises_through l n \<Longrightarrow> raises_through l (if c then m else n)"
  by simp

lemmas rt_intros = rt_bind rt_seq rt_return rt_raise rt_if rt_res_write rt_res_reset
  rt_res_write_values rt_res_query rt_res_query_values

lemma rt_set_segments: "raises_through l (set_segments l segs ch)"
  unfolding set_segments_def
  by (rule rt_state) (auto intro!: rt_intros split: prod.splits)

lemma rt_get_marker_data: "raises_through l (get_marker_data l m ch)"
  unfolding get_marker_data_def by (intro rt_intros)

lemma rt_get_sweep_data: "raises_through l (get_sweep_data l ch)"
  unfolding get_sweep_data_def by (rule rt_state) (auto intro!: rt_intros)

lemma rt_get_freq_data: "raises_through l (get_freq_data l ch)"
  unfolding get_freq_data_def by (rule rt_state) (auto intro!: rt_intros)

lemma rt_trigger: "raises_through l (trigger l)"
  unfolding trigger_def by (rule rt_state) (auto intro!: rt_intros)

lemma rt_force_trigger: "raises_through l (force_trigger l)"
  unfolding force_trigger_def by (rule rt_state) (auto intro!: rt_intros)

lemma rt_read_markers: "raises_through l (read_markers l is d)"
proof (induction "is" arbitrary: d)
  case Nil
  show ?case by (simp add: rt_return)
next
  case (Cons i rest)
  show ?case
    by (auto intro!: rt_intros rt_get_marker_data Cons split: list.splits)
qed

lemma rt_premod:
  assumes m: "raises_through l m" and g: "res_log v1 = res_log v" and run: "m v1 = (r, v')"
  shows "(\<exists>ext. res_log v' = res_log v @ ext) \<and> (faulted l v v' \<longrightarrow> r = Inl VisaIOError)"
  using raises_throughD [OF m run] g by (auto simp: faulted_def)

lemma rt_same_log:
  assumes "res_log v' = res_log v"
  shows "(\<exists>ext. res_log v' = res_log v @ ext) \<and> (faulted l v v' \<longrightarrow> r = Inl VisaIOError)"
  using assms by (auto simp: faulted_def)

lemma rt_fit_sweep: "raises_through l (fit_sweep l lib freq ampl)"
  unfolding raises_through_def
proof (intro allI impI)
  fix v :: vna and r :: "error + Sample option" and v'
  assume h: "fit_sweep l lib freq ampl v = (r, v')"
  let ?tr = "track_freq (cfg v) \<and> track_enabled (cfg v)"
  obtain rl segs' where fl:
    "fit_loop lib ?tr freq ampl (segments (cfg v)) 0 False Sample_init = (rl, segs')"
    by (cases "fit_loop lib ?tr freq ampl (segments (cfg v)) 0 False Sample_init")
  let ?v1 = "v\<lparr>cfg := (cfg v)\<lparr>segments := segs'\<rparr>\<rparr>"
  let ?m = "io_seq (set_segments l segs' 1) (io_return None :: Sample option io)"
  have m: "raises_through l ?m" by (intro rt_intros rt_set_segments)
  have g: "res_log ?v1 = res_log v" by simp
  show "(\<exists>ext. res_log v' = res_log v @ ext) \<and> (faulted l v v' \<longrightarrow> r = Inl VisaIOError)"
  proof (cases "\<exists>d. rl = Inr (True, d) \<and> ?tr")
    case True
    then have "?m ?v1 = (r, v')" using h fl by (auto simp: fit_sweep_def Let_def)
    from rt_premod [OF m g this] show ?thesis .
  next
    case False
    then have "v' = ?v1" using h fl
      by (auto simp: fit_sweep_def Let_def split: sum.splits if_splits)
    then have "res_log v' = res_log v" by simp
    then show ?thesis by (rule rt_same_log)
  qed
qed

lemma rt_acquire_sweep: "raises_through l (acquire_sweep l lib)"
  unfolding acquire_sweep_def
  by (auto intro!: rt_intros rt_get_sweep_data rt_get_freq_data rt_fit_sweep split: sum.splits)

lemma rt_track: "raises_through l (track l data)"
  unfolding raises_through_def
proof (intro allI impI)
  fix v :: vna and r :: "error + unit" and v'
  assume h: "track l data v = (r, v')"
  obtain rl segs' where tl:
    "track_loop (cfg v) False (segments (cfg v)) (s_f0 data) (s_bw data) = (rl, segs')"
    by (cases "track_loop (cfg v) False (segments (cfg v)) (s_f0 data) (s_bw data)")
  let ?v1 = "v\<lparr>cfg := (cfg v)\<lparr>segments := segs'\<rparr>\<rparr>"
  let ?m = "io_seq (set_segments l segs' 1)
              (if use_markers (cfg ?v1) then force_trigger l else io_return ())"
  have m: "raises_through l ?m" by (intro rt_intros rt_set_segments rt_force_trigger)
  have g: "res_log ?v1 = res_log v" by simp
  show "(\<exists>ext. res_log v' = res_log v @ ext) \<and> (faulted l v v' \<longrightarrow> r = Inl VisaIOError)"
  proof (cases "((track_freq (cfg v) \<or> track_span (cfg v)) \<and> track_enabled (cfg v))
                  \<and> rl = Inr True")
    case True
    then have "?m ?v1 = (r, v')" using h tl by (auto simp: track_def Let_def)
    from rt_premod [OF m g this] show ?thesis .
  next
    case False
    then have "v' = ?v1 \<or> v' = v" using h tl
      by (auto simp: track_def Let_def split: sum.splits if_splits)
    then have "res_log v' = res_log v" by auto
    then show ?thesis by (rule rt_same_log)
  qed
qed

lemma rt_raw_cycle:
  "raises_through l
     (io_seq (trigger l)
        (io_bind (acquire_sweep l lib) (\<lambda>r.
           case r of None \<Rightarrow> io_return None
           | Some data \<Rightarrow> io_seq (track l data) (io_return (Some data)))))"
  by (auto intro!: rt_intros rt_trigger rt_acquire_sweep rt_track split: option.splits)

lemma rt_state_if:
  "raises_through l m \<Longrightarrow> raises_through l n
   \<Longrightarrow> raises_through l (\<lambda>v. (if P v then m else n) v)"
  unfolding raises_through_def by simp

lemma rt_state_if2:
  "raises_through l a \<Longrightarrow> raises_through l b \<Longrightarrow> raises_through l n
   \<Longrightarrow> raises_through l (\<lambda>v. (if P v then (if Q v then a else b) else n) v)"
  unfolding raises_through_def by simp

lemma rt_state_segments: "raises_through l (\<lambda>v. set_segments l (g v) ch v)"
  using rt_set_segments unfolding raises_through_def by blast

lemma rt_setup: "raises_through l (VNA_setup l config)"
  unfolding VNA_setup_def
  by (auto intro!: rt_intros rt_assign rt_state_if rt_state_if2 rt_state_segments
      split: sum.splits)

text \<open>What the code does with a transport failure. In marker mode, a failure met while
  the markers are read makes the cycle return no result, in the state the failed read
  left. In raw-sweep mode a failure met by any command of the cycle leaves
  \<^const>\<open>sample\<close> as \<^verbatim>\<open>VisaIOError\<close>: that branch has no handler for it. A failure
  met by any command of setup leaves it as \<^verbatim>\<open>VisaIOError\<close>.\<close>

lemma transport_error_handling:
  "(use_markers (cfg v) \<longrightarrow>
      read_markers l [0..<length (segments (cfg v))] Sample_init v = (rr, v1) \<longrightarrow>
      faulted l v v1 \<longrightarrow> sample l lib v = (Inr None, v1))
   \<and> (\<not> use_markers (cfg v) \<longrightarrow> sample l lib v = (r, v2) \<longrightarrow> faulted l v v2 \<longrightarrow>
        r = Inl VisaIOError)
   \<and> (VNA_setup l config v = (r', v3) \<longrightarrow> faulted l v v3 \<longrightarrow> r' = Inl VisaIOError)"
proof (intro conjI impI)
  assume um: "use_markers (cfg v)"
    and rd: "read_markers l [0..<length (segments (cfg v))] Sample_init v = (rr, v1)"
    and f: "faulted l v v1"
  have "rr = Inl VisaIOError" using raises_throughD(2) [OF rt_read_markers rd f] .
  then have "acquire_markers l v = (Inr None, v1)"
    using rd by (simp add: acquire_markers_def)
  then show "sample l lib v = (Inr None, v1)"
    using um by (simp add: sample_marker_mode io_bind_def io_return_def)
next
  assume "\<not> use_markers (cfg v)" and s: "sample l lib v = (r, v2)" and f: "faulted l v v2"
  then show "r = Inl VisaIOError"
    using raises_throughD(2) [OF rt_raw_cycle, of l lib v r v2] by (simp add: sample_raw_mode)
next
  assume "VNA_setup l config v = (r', v3)" and "faulted l v v3"
  then show "r' = Inl VisaIOError" using raises_throughD(2) [OF rt_setup] by blast
qed

lemma example_marker_fault:
  "read_markers (example_faulty_link idn vals 1) [0..<length (segments (cfg
       (example_state m True tf ts [seg])))] Sample_init (example_state m True tf ts [seg])
     = (Inl VisaIOError, example_state m True tf ts [seg]
          \<lparr>res_log := [QueryValues '':CALC{}:MARK{}:BWID:DATA?'' [AInt 1, AInt 1]]\<rparr>)"
  by (simp add: example_state_def example_faulty_link_def io_bind_def get_marker_data_def
      res_query_ascii_values_def)

lemma example_raw_fault:
  "sample (example_faulty_link idn vals 3) lib (example_state ''E5071C'' False tf ts segs)
     = (Inl VisaIOError, example_state ''E5071C'' False tf ts segs
          \<lparr>res_log := [Write '':TRIG:SING'' [], Query ''*OPC?'' [],
                       QueryValues '':CALC{}:DATA:SDAT?'' [AInt 1]]\<rparr>)"
  by (simp add: sample_raw_mode example_state_def example_faulty_link_def io_bind_def io_seq_def
      io_return_def trigger_def acquire_sweep_def get_sweep_data_def res_write_def
      send_write_def res_query_def res_query_ascii_values_def)

lemma example_setup_fault:
  "fst (VNA_setup (example_faulty_link idn vals 1) (example_config um) example_vna)
     = Inl VisaIOError
   \<and> res_log (snd (VNA_setup (example_faulty_link idn vals 1) (example_config um) example_vna))
     = [Reset]"
  by (simp add: VNA_setup_def example_init io_bind_def io_seq_def res_reset_def send_write_def
      example_faulty_link_def example_vna_def)

lemma faultedI:
  "length (res_log v) < k \<Longrightarrow> k \<le> length (res_log v') \<Longrightarrow> link_fault l (take k (res_log v'))
   \<Longrightarrow> faulted l v v'"
  unfolding faulted_def by blast

text \<open>C6 fails in raw-sweep mode. On an E5071C with one segment, the sweep read, the
  third command of the cycle, meets a transport failure, and the cycle ends with
  \<^verbatim>\<open>VisaIOError\<close> instead of returning no result: the raw-sweep branch lacks the
  \<^verbatim>\<open>except VisaIOError\<close> that the marker branch has.\<close>

theorem raw_sweep_transport_error_propagates:
  "sample (example_faulty_link (example_idn ''E5071C'') [] 3)
      (example_scipy (Inl RuntimeError) (Inr 1))
      (example_state ''E5071C'' False False False [Segment_init ''a'' 100 10 2 1000 0])
     = (Inl VisaIOError,
        example_state ''E5071C'' False False False [Segment_init ''a'' 100 10 2 1000 0]
          \<lparr>res_log := [Write '':TRIG:SING'' [], Query ''*OPC?'' [],
                       QueryValues '':CALC{}:DATA:SDAT?'' [AInt 1]]\<rparr>)
   \<and> values_reply (example_faulty_link (example_idn ''E5071C'') [] 3)
        [Write '':TRIG:SING'' [], Query ''*OPC?'' [],
         QueryValues '':CALC{}:DATA:SDAT?'' [AInt 1]] = None"
  by (simp add: example_raw_fault) (simp add: example_faulty_link_def)

text \<open>A failed marker read, a failed sweep read and a failed reset.\<close>

lemma transport_error_handling_example:
  "sample (example_faulty_link (example_idn ''E5071C'') [5, 100, 20, - 3] 1)
      (example_scipy (Inl RuntimeError) (Inr 1))
      (example_state ''E5071C'' True False False [Segment_init ''a'' 100 10 2 1000 0])
     = (Inr None,
        example_state ''E5071C'' True False False [Segment_init ''a'' 100 10 2 1000 0]
          \<lparr>res_log := [QueryValues '':CALC{}:MARK{}:BWID:DATA?'' [AInt 1, AInt 1]]\<rparr>)
   \<and> fst (sample (example_faulty_link (example_idn ''E5071C'') [] 3)
      (example_scipy (Inl RuntimeError) (Inr 1))
      (example_state ''E5071C'' False False False [Segment_init ''a'' 100 10 2 1000 0]))
     = Inl VisaIOError
   \<and> fst (VNA_setup (example_faulty_link (example_idn ''E5071C'') [] 1) (example_config False)
        example_vna) = Inl VisaIOError"
proof -
  let ?lib = "example_scipy (Inl RuntimeError) (Inr 1)"
  let ?seg = "Segment_init ''a'' 100 10 2 1000 0"
  let ?l1 = "example_faulty_link (example_idn ''E5071C'') [5, 100, 20, - 3] 1"
  let ?vm = "example_state ''E5071C'' True False False [?seg]"
  let ?vm1 = "?vm\<lparr>res_log := [QueryValues '':CALC{}:MARK{}:BWID:DATA?'' [AInt 1, AInt 1]]\<rparr>"
  let ?l3 = "example_faulty_link (example_idn ''E5071C'') [] 3"
  let ?vr = "example_state ''E5071C'' False False False [?seg]"
  let ?vr1 = "?vr\<lparr>res_log := [Write '':TRIG:SING'' [], Query ''*OPC?'' [],
                       QueryValues '':CALC{}:DATA:SDAT?'' [AInt 1]]\<rparr>"
  let ?ls = "example_faulty_link (example_idn ''E5071C'') [] 1"
  let ?vs = "snd (VNA_setup ?ls (example_config False) example_vna)"
  have um: "use_markers (cfg ?vm)" "\<not> use_markers (cfg ?vr)"
    by (simp_all add: example_state_def)
  have rd: "read_markers ?l1 [0..<length (segments (cfg ?vm))] Sample_init ?vm
              = (Inl VisaIOError, ?vm1)"
    by (rule example_marker_fault)
  have f1: "faulted ?l1 ?vm ?vm1"
    by (rule faultedI [of _ 1])
      (simp_all add: example_state_def link_fault_def example_faulty_link_def)
  have raw: "sample ?l3 ?lib ?vr = (Inl VisaIOError, ?vr1)"
    by (rule example_raw_fault)
  have f2: "faulted ?l3 ?vr ?vr1"
    by (rule faultedI [of _ 3])
      (simp_all add: example_state_def link_fault_def example_faulty_link_def)
  have f3: "faulted ?ls example_vna ?vs"
    using example_setup_fault [of "example_idn ''E5071C''" "[]" False]
    by (intro faultedI [of _ 1])
      (simp_all add: example_vna_def link_fault_def example_faulty_link_def)
  from transport_error_handling [where v = ?vm and l = ?l1 and rr = "Inl VisaIOError"
      and ?v1.0 = ?vm1 and lib = ?lib] um(1) rd f1
  have a: "sample ?l1 ?lib ?vm = (Inr None, ?vm1)" by blast
  from transport_error_handling [where v = ?vr and l = ?l3 and lib = ?lib
      and r = "Inl VisaIOError" and ?v2.0 = ?vr1] um(2) raw f2
  have b: "fst (sample ?l3 ?lib ?vr) = Inl VisaIOError" by simp
  from transport_error_handling [where v = example_vna and l = ?ls
      and config = "example_config False"
      and r' = "fst (VNA_setup ?ls (example_config False) example_vna)" and ?v3.0 = ?vs] f3
  have c: "fst (VNA_setup ?ls (example_config False) example_vna) = Inl VisaIOError" by simp
  show ?thesis using a b c by simp
qed

section \<open>Raw-sweep mode: lost track\<close>







end
